theory Spec2Isabelle
  imports Main "HOL-Library.Sublist"
begin

section \<open>Python strings\<close>

text \<open>
  A Python \<^verbatim>\<open>str\<close> is a sequence of Unicode code points, here a list of integers.
  The substring test, \<^verbatim>\<open>str.replace\<close> and the regular expressions of the code work on
  code points, and so do the definitions below. \<open>ascii\<close> gives the code points of a
  literal of ASCII characters.
\<close>

type_synonym str = "int list"

definition ascii :: "string \<Rightarrow> str" where
  "ascii s = map of_char s"

text \<open>
  What Python takes from its Unicode character database is not code of the repository
  and changes with the version of the interpreter: which code points \<^verbatim>\<open>str.strip\<close>
  removes as white space (U+00A0 and U+2003 are among them), what \<^verbatim>\<open>str.upper\<close> and
  \<^verbatim>\<open>str.lower\<close> make of a string (\<^verbatim>\<open>str.upper\<close> maps U+0131 to I and may lengthen the
  string, \<^verbatim>\<open>str.lower\<close> maps U+212A to k and looks at the context of a capital sigma), and
  the classes \<^verbatim>\<open>\d\<close> and \<^verbatim>\<open>\w\<close> of the regular expressions, which are
  \<^verbatim>\<open>str.isdecimal\<close> and \<^verbatim>\<open>str.isalnum\<close> or an underscore. They are parameters of the
  model, the fields of a record \<open>unicode\<close>. Every definition that depends on them takes
  the record as its first argument, so every theorem is about all of them at once,
  Python's among them; a theorem that needs a fact about them has it as a hypothesis.
\<close>

record unicode =
  isspace :: "int \<Rightarrow> bool"
  upper :: "str \<Rightarrow> str"
  lower :: "str \<Rightarrow> str"
  isdecimal :: "int \<Rightarrow> bool"
  isalnum :: "int \<Rightarrow> bool"

text \<open>
  The white space among the ASCII code points: tab, line feed, vertical tab, form feed,
  carriage return, the four separators U+001C to U+001F, and the space. \<open>ascii_space U\<close>
  says that the parameter agrees with Python on the ASCII code points.
\<close>

definition ascii_isspace :: "int \<Rightarrow> bool" where
  "ascii_isspace c = ((9 \<le> c \<and> c \<le> 13) \<or> (28 \<le> c \<and> c \<le> 32))"


text \<open>\<^verbatim>\<open>s.strip()\<close>: the white space at both ends is removed.\<close>

definition strip :: "unicode \<Rightarrow> str \<Rightarrow> str" where
  "strip U s = rev (dropWhile (isspace U) (rev (dropWhile (isspace U) s)))"

text \<open>\<^verbatim>\<open>sub in s\<close>: \<open>sub\<close> occurs in \<open>s\<close> as a contiguous run.\<close>

fun contains :: "str \<Rightarrow> str \<Rightarrow> bool" where
  "contains sub [] = (sub = [])"
| "contains sub (c # cs) = (prefix sub (c # cs) \<or> contains sub cs)"

text \<open>
  \<^verbatim>\<open>s.replace(old, new)\<close>: the occurrences of \<open>old\<close> are found from the left and do not
  overlap; the search goes on after the occurrence just replaced, never inside the text
  put in. With an empty \<open>old\<close> Python puts \<open>new\<close> before every character and at the end.
\<close>

fun replace :: "str \<Rightarrow> str \<Rightarrow> str \<Rightarrow> str" where
  "replace [] new s = new @ concat (map (\<lambda>c. c # new) s)"
| "replace (x # xs) new [] = []"
| "replace (x # xs) new (c # cs) =
     (if prefix (x # xs) (c # cs) then new @ replace (x # xs) new (drop (length xs) cs)
      else c # replace (x # xs) new cs)"

text \<open>
  \<^verbatim>\<open>re.sub(pattern, repl, s)\<close> for a pattern that never matches the empty string. The
  pattern is given by its matcher \<open>m\<close>: \<open>m s\<close> is the rest of \<open>s\<close> after the match that
  starts at the head of \<open>s\<close>, if there is one. The scan goes from the left; after a match
  it goes on behind the match. The guard on the length only serves the termination of
  the definition: the two matchers below always consume a character
  (\<open>match_tag_shorter\<close>, \<open>match_banner_shorter\<close>).
\<close>

fun re_sub :: "(str \<Rightarrow> str option) \<Rightarrow> str \<Rightarrow> str \<Rightarrow> str" where
  "re_sub m repl [] = []"
| "re_sub m repl (c # cs) =
     (case m (c # cs) of
        Some rest \<Rightarrow>
          if length rest \<le> length cs then repl @ re_sub m repl rest
          else c # re_sub m repl cs
      | None \<Rightarrow> c # re_sub m repl cs)"

text \<open>
  The pattern \<^verbatim>\<open><[^>]+>\<close> of the plain-text fallback (interface.py, line 59): a
  \<^verbatim>\<open><\<close> (code point 60), then one or more characters other than \<^verbatim>\<open>>\<close> (code point 62),
  then \<^verbatim>\<open>>\<close>. The class is greedy, but it cannot pass a \<^verbatim>\<open>>\<close>, so the match ends at the
  first \<^verbatim>\<open>>\<close> behind the \<^verbatim>\<open><\<close>.
\<close>

definition match_tag :: "str \<Rightarrow> str option" where
  "match_tag s =
     (case s of
        [] \<Rightarrow> None
      | c # cs \<Rightarrow>
          if c = 60 \<and> takeWhile (\<lambda>x. x \<noteq> 62) cs \<noteq> [] then
            (case dropWhile (\<lambda>x. x \<noteq> 62) cs of
               [] \<Rightarrow> None
             | g # rest \<Rightarrow> Some rest)
          else None)"

text \<open>
  The classes of the regular expressions on a \<^verbatim>\<open>str\<close> pattern: \<^verbatim>\<open>\d\<close> is a decimal digit
  of any script, \<^verbatim>\<open>\w\<close> an alphanumeric character of any script or the underscore (code
  point 95).
\<close>

definition isdigit :: "unicode \<Rightarrow> int \<Rightarrow> bool" where
  "isdigit U c = isdecimal U c"

definition isword :: "unicode \<Rightarrow> int \<Rightarrow> bool" where
  "isword U c = (isalnum U c \<or> c = 95)"

definition strip_prefix :: "str \<Rightarrow> str \<Rightarrow> str option" where
  "strip_prefix p s = (if prefix p s then Some (drop (length p) s) else None)"

text \<open>
  A class repeated once or more, \<^verbatim>\<open>\d+\<close> or \<^verbatim>\<open>\w+\<close>, followed by the rest of the pattern
  \<open>k\<close>: the class takes as many characters as it can and gives them back one by one
  until the rest of the pattern matches.
\<close>

fun match_plus :: "(int \<Rightarrow> bool) \<Rightarrow> (str \<Rightarrow> str option) \<Rightarrow> str \<Rightarrow> str option" where
  "match_plus p k [] = None"
| "match_plus p k (c # cs) =
     (if p c then (case match_plus p k cs of Some rest \<Rightarrow> Some rest | None \<Rightarrow> k cs)
      else None)"

text \<open>
  The pattern of the execution banner (interface.py, line 92):
  \<^verbatim>\<open>>>>>>>>> EXECUTING CODE BLOCK \d+ \(inferred language is \w+\)\.\.\.\<close>
\<close>

definition match_banner :: "unicode \<Rightarrow> str \<Rightarrow> str option" where
  "match_banner U s =
     (case strip_prefix (ascii ''>>>>>>>> EXECUTING CODE BLOCK '') s of
        None \<Rightarrow> None
      | Some r1 \<Rightarrow>
          match_plus (isdigit U)
            (\<lambda>r. case strip_prefix (ascii '' (inferred language is '') r of
                    None \<Rightarrow> None
                  | Some r2 \<Rightarrow> match_plus (isword U) (strip_prefix (ascii '')...'')) r2)
            r1)"

section \<open>The texts the bot sends\<close>

text \<open>
  The source's literals, as code points. Each definition is preceded by the literal,
  its code points outside ASCII written \<^verbatim>\<open><U+hex>\<close> and a line feed \<^verbatim>\<open><LF>\<close>.
\<close>

text \<open>
  The prefix of the fallback label f"... {agent_name}" (agent_system.py, line 315). The literal:
  \<^verbatim>\<open>
    <U+1F916> 
  \<close>
\<close>

definition robot_prefix :: str where
  "robot_prefix =
     [0x1F916] @ ascii '' ''"

text \<open>
  The label of program output (agent_system.py, line 319). The literal:
  \<^verbatim>\<open>
    <U+2699><U+FE0F> Executor (<U+041A><U+043E><U+0434>)
  \<close>
\<close>

definition executor_code_role :: str where
  "executor_code_role =
     [0x2699, 0xFE0F] @ ascii '' Executor ('' @ [0x041A, 0x043E, 0x0434] @ ascii '')''"

text \<open>
  The label of the final answer (agent_system.py, lines 329 and 335). The literal:
  \<^verbatim>\<open>
    <U+1F3AF> <U+0424><U+0438><U+043D><U+0430><U+043B><U+044C><U+043D><U+044B><U+0439> 
    <U+043E><U+0442><U+0432><U+0435><U+0442>
  \<close>
\<close>

definition final_answer_role :: str where
  "final_answer_role =
     [0x1F3AF] @ ascii '' ''
     @ [0x0424, 0x0438, 0x043D, 0x0430, 0x043B, 0x044C, 0x043D, 0x044B, 0x0439] @ ascii '' ''
     @ [0x043E, 0x0442, 0x0432, 0x0435, 0x0442]"

text \<open>
  The default final message (agent_system.py, line 334). The literal:
  \<^verbatim>\<open>
    <U+2705> <U+0417><U+0430><U+0434><U+0430><U+0447><U+0430> <U+0443><U+0441><U+043F>
    <U+0435><U+0448><U+043D><U+043E> <U+0432><U+044B><U+043F><U+043E><U+043B><U+043D>
    <U+0435><U+043D><U+0430> <U+043A><U+043E><U+043C><U+0430><U+043D><U+0434><U+043E>
    <U+0439> <U+044D><U+043A><U+0441><U+043F><U+0435><U+0440><U+0442><U+043E><U+0432>
  \<close>
\<close>

definition default_answer :: str where
  "default_answer =
     [0x2705] @ ascii '' '' @ [0x0417, 0x0430, 0x0434, 0x0430, 0x0447, 0x0430] @ ascii '' ''
     @ [0x0443, 0x0441, 0x043F, 0x0435, 0x0448, 0x043D, 0x043E] @ ascii '' ''
     @ [0x0432, 0x044B, 0x043F, 0x043E, 0x043B, 0x043D, 0x0435, 0x043D, 0x0430] @ ascii '' ''
     @ [0x043A, 0x043E, 0x043C, 0x0430, 0x043D, 0x0434, 0x043E, 0x0439] @ ascii '' ''
     @ [0x044D, 0x043A, 0x0441, 0x043F, 0x0435, 0x0440, 0x0442, 0x043E, 0x0432]"

text \<open>
  The replacement of the execution banner (interface.py, line 93). The literal:
  \<^verbatim>\<open>
    <U+1F4BB> <b><U+0412><U+044B><U+043F><U+043E><U+043B><U+043D><U+0435><U+043D>
    <U+0438><U+0435> <U+043A><U+043E><U+0434><U+0430></b>
  \<close>
\<close>

definition code_running_html :: str where
  "code_running_html =
     [0x1F4BB] @ ascii '' <b>''
     @ [0x0412, 0x044B, 0x043F, 0x043E, 0x043B, 0x043D, 0x0435, 0x043D, 0x0438, 0x0435]
     @ ascii '' '' @ [0x043A, 0x043E, 0x0434, 0x0430] @ ascii ''</b>''"

text \<open>
  Replaces "exitcode:" (interface.py, line 100). The literal:
  \<^verbatim>\<open>
    <LF><b><U+0421><U+0442><U+0430><U+0442><U+0443><U+0441>:</b>
  \<close>
\<close>

definition status_html :: str where
  "status_html =
     [10] @ ascii ''<b>'' @ [0x0421, 0x0442, 0x0430, 0x0442, 0x0443, 0x0441] @ ascii '':</b>''"

text \<open>
  Replaces "Code output:" (interface.py, line 101). The literal:
  \<^verbatim>\<open>
    <LF><b><U+0420><U+0435><U+0437><U+0443><U+043B><U+044C><U+0442><U+0430><U+0442>:</b>
  \<close>
\<close>

definition result_html :: str where
  "result_html =
     [10] @ ascii ''<b>''
     @ [0x0420, 0x0435, 0x0437, 0x0443, 0x043B, 0x044C, 0x0442, 0x0430, 0x0442]
     @ ascii '':</b>''"

text \<open>
  Replaces "execution succeeded" (interface.py, line 102). The literal:
  \<^verbatim>\<open>
    <U+2705> <U+0423><U+0441><U+043F><U+0435><U+0448><U+043D><U+043E>
  \<close>
\<close>

definition succeeded_text :: str where
  "succeeded_text =
     [0x2705] @ ascii '' '' @ [0x0423, 0x0441, 0x043F, 0x0435, 0x0448, 0x043D, 0x043E]"

text \<open>
  Replaces "execution failed" (interface.py, line 103). The literal:
  \<^verbatim>\<open>
    <U+274C> <U+041E><U+0448><U+0438><U+0431><U+043A><U+0430>
  \<close>
\<close>

definition failed_text :: str where
  "failed_text =
     [0x274C] @ ascii '' '' @ [0x041E, 0x0448, 0x0438, 0x0431, 0x043A, 0x0430]"

text \<open>
  Replaces the opening fence of a python block (interface.py, line 108). The literal:
  \<^verbatim>\<open>
    <pre><code class='language-python'>
  \<close>
\<close>

definition python_pre_html :: str where
  "python_pre_html =
     ascii ''<pre><code class='' @ [39] @ ascii ''language-python'' @ [39] @ ascii ''>''"

text \<open>
  The wait notice (handlers.py, line 85). The literal:
  \<^verbatim>\<open>
    <U+23F3> <U+0417><U+0430><U+0434><U+0430><U+0447><U+0430> <U+0443><U+0436><U+0435> 
    <U+0432><U+044B><U+043F><U+043E><U+043B><U+043D><U+044F><U+0435><U+0442><U+0441>
    <U+044F>. <U+041F><U+043E><U+0436><U+0430><U+043B><U+0443><U+0439><U+0441><U+0442>
    <U+0430>, <U+043F><U+043E><U+0434><U+043E><U+0436><U+0434><U+0438><U+0442><U+0435> 
    <U+0437><U+0430><U+0432><U+0435><U+0440><U+0448><U+0435><U+043D><U+0438><U+044F>.
  \<close>
\<close>

definition wait_notice :: str where
  "wait_notice =
     [0x23F3] @ ascii '' '' @ [0x0417, 0x0430, 0x0434, 0x0430, 0x0447, 0x0430] @ ascii '' ''
     @ [0x0443, 0x0436, 0x0435] @ ascii '' ''
     @ [0x0432, 0x044B, 0x043F, 0x043E, 0x043B, 0x043D, 0x044F, 0x0435, 0x0442, 0x0441, 0x044F]
     @ ascii ''. ''
     @ [0x041F, 0x043E, 0x0436, 0x0430, 0x043B, 0x0443, 0x0439, 0x0441, 0x0442, 0x0430]
     @ ascii '', '' @ [0x043F, 0x043E, 0x0434, 0x043E, 0x0436, 0x0434, 0x0438, 0x0442, 0x0435]
     @ ascii '' ''
     @ [0x0437, 0x0430, 0x0432, 0x0435, 0x0440, 0x0448, 0x0435, 0x043D, 0x0438, 0x044F]
     @ ascii ''.''"

text \<open>
  The label of the user's own message (handlers.py, line 96). The literal:
  \<^verbatim>\<open>
    <U+1F464> <U+041F><U+043E><U+043B><U+044C><U+0437><U+043E><U+0432><U+0430><U+0442>
    <U+0435><U+043B><U+044C>
  \<close>
\<close>

definition user_role :: str where
  "user_role =
     [0x1F464] @ ascii '' ''
     @ [0x041F, 0x043E, 0x043B, 0x044C, 0x0437, 0x043E, 0x0432, 0x0430, 0x0442, 0x0435, 0x043B,
      0x044C]"

text \<open>
  The label of system notices (handlers.py, lines 100, 111, 116, 128). The literal:
  \<^verbatim>\<open>
    <U+2139><U+FE0F> <U+0421><U+0438><U+0441><U+0442><U+0435><U+043C><U+0430>
  \<close>
\<close>

definition system_role :: str where
  "system_role =
     [0x2139, 0xFE0F] @ ascii '' '' @ [0x0421, 0x0438, 0x0441, 0x0442, 0x0435, 0x043C, 0x0430]"

text \<open>
  The start notice (handlers.py, lines 98-99). The literal:
  \<^verbatim>\<open>
    <U+1F504> <U+0417><U+0430><U+043F><U+0443><U+0441><U+043A><U+0430><U+044E> <U+043A>
    <U+043E><U+043C><U+0430><U+043D><U+0434><U+0443> <U+044D><U+043A><U+0441><U+043F>
    <U+0435><U+0440><U+0442><U+043E><U+0432>...<LF><LF><U+0412><U+044B> <U+0443><U+0432>
    <U+0438><U+0434><U+0438><U+0442><U+0435> <U+043F><U+043E><U+043B><U+043D><U+044B>
    <U+0439> <U+043F><U+0440><U+043E><U+0446><U+0435><U+0441><U+0441> <U+0440><U+0435>
    <U+0448><U+0435><U+043D><U+0438><U+044F> <U+0437><U+0430><U+0434><U+0430><U+0447>
    <U+0438> <U+0432> <U+0440><U+0435><U+0430><U+043B><U+044C><U+043D><U+043E><U+043C> 
    <U+0432><U+0440><U+0435><U+043C><U+0435><U+043D><U+0438>.
  \<close>
\<close>

definition starting_text :: str where
  "starting_text =
     [0x1F504] @ ascii '' '' @ [0x0417, 0x0430, 0x043F, 0x0443, 0x0441, 0x043A, 0x0430, 0x044E]
     @ ascii '' '' @ [0x043A, 0x043E, 0x043C, 0x0430, 0x043D, 0x0434, 0x0443] @ ascii '' ''
     @ [0x044D, 0x043A, 0x0441, 0x043F, 0x0435, 0x0440, 0x0442, 0x043E, 0x0432] @ ascii ''...''
     @ [10, 10, 0x0412, 0x044B] @ ascii '' ''
     @ [0x0443, 0x0432, 0x0438, 0x0434, 0x0438, 0x0442, 0x0435] @ ascii '' ''
     @ [0x043F, 0x043E, 0x043B, 0x043D, 0x044B, 0x0439] @ ascii '' ''
     @ [0x043F, 0x0440, 0x043E, 0x0446, 0x0435, 0x0441, 0x0441] @ ascii '' ''
     @ [0x0440, 0x0435, 0x0448, 0x0435, 0x043D, 0x0438, 0x044F] @ ascii '' ''
     @ [0x0437, 0x0430, 0x0434, 0x0430, 0x0447, 0x0438] @ ascii '' '' @ [0x0432] @ ascii '' ''
     @ [0x0440, 0x0435, 0x0430, 0x043B, 0x044C, 0x043D, 0x043E, 0x043C] @ ascii '' ''
     @ [0x0432, 0x0440, 0x0435, 0x043C, 0x0435, 0x043D, 0x0438] @ ascii ''.''"

text \<open>
  The completion notice (handlers.py, line 110). The literal:
  \<^verbatim>\<open>
    <U+2705> <U+0420><U+0430><U+0431><U+043E><U+0442><U+0430> <U+043A><U+043E><U+043C>
    <U+0430><U+043D><U+0434><U+044B> <U+044D><U+043A><U+0441><U+043F><U+0435><U+0440>
    <U+0442><U+043E><U+0432> <U+0437><U+0430><U+0432><U+0435><U+0440><U+0448><U+0435>
    <U+043D><U+0430> <U+0443><U+0441><U+043F><U+0435><U+0448><U+043D><U+043E>!
  \<close>
\<close>

definition success_text :: str where
  "success_text =
     [0x2705] @ ascii '' '' @ [0x0420, 0x0430, 0x0431, 0x043E, 0x0442, 0x0430] @ ascii '' ''
     @ [0x043A, 0x043E, 0x043C, 0x0430, 0x043D, 0x0434, 0x044B] @ ascii '' ''
     @ [0x044D, 0x043A, 0x0441, 0x043F, 0x0435, 0x0440, 0x0442, 0x043E, 0x0432] @ ascii '' ''
     @ [0x0437, 0x0430, 0x0432, 0x0435, 0x0440, 0x0448, 0x0435, 0x043D, 0x0430] @ ascii '' ''
     @ [0x0443, 0x0441, 0x043F, 0x0435, 0x0448, 0x043D, 0x043E] @ ascii ''!''"

text \<open>
  The notice of a dialogue that ended without TERMINATE (handlers.py, line 115). The literal:
  \<^verbatim>\<open>
    <U+26A0><U+FE0F> <U+0414><U+0438><U+0430><U+043B><U+043E><U+0433> <U+0437><U+0430>
    <U+0432><U+0435><U+0440><U+0448><U+0438><U+043B><U+0441><U+044F> <U+0431><U+0435>
    <U+0437> TERMINATE. <U+0412><U+043E><U+0437><U+043C><U+043E><U+0436><U+043D><U+043E>
    , <U+0437><U+0430><U+0434><U+0430><U+0447><U+0430> <U+043D><U+0435> <U+0431><U+044B>
    <U+043B><U+0430> <U+043F><U+043E><U+043B><U+043D><U+043E><U+0441><U+0442><U+044C>
    <U+044E> <U+0440><U+0435><U+0448><U+0435><U+043D><U+0430>.
  \<close>
\<close>

definition incomplete_text :: str where
  "incomplete_text =
     [0x26A0, 0xFE0F] @ ascii '' '' @ [0x0414, 0x0438, 0x0430, 0x043B, 0x043E, 0x0433]
     @ ascii '' ''
     @ [0x0437, 0x0430, 0x0432, 0x0435, 0x0440, 0x0448, 0x0438, 0x043B, 0x0441, 0x044F]
     @ ascii '' '' @ [0x0431, 0x0435, 0x0437] @ ascii '' TERMINATE. ''
     @ [0x0412, 0x043E, 0x0437, 0x043C, 0x043E, 0x0436, 0x043D, 0x043E] @ ascii '', ''
     @ [0x0437, 0x0430, 0x0434, 0x0430, 0x0447, 0x0430] @ ascii '' '' @ [0x043D, 0x0435]
     @ ascii '' '' @ [0x0431, 0x044B, 0x043B, 0x0430] @ ascii '' ''
     @ [0x043F, 0x043E, 0x043B, 0x043D, 0x043E, 0x0441, 0x0442, 0x044C, 0x044E] @ ascii '' ''
     @ [0x0440, 0x0435, 0x0448, 0x0435, 0x043D, 0x0430] @ ascii ''.''"

text \<open>
  The head of the error notice (handlers.py, line 126). The literal:
  \<^verbatim>\<open>
    <U+274C> <U+041A><U+0440><U+0438><U+0442><U+0438><U+0447><U+0435><U+0441><U+043A>
    <U+0430><U+044F> <U+043E><U+0448><U+0438><U+0431><U+043A><U+0430>: 
  \<close>
\<close>

definition error_prefix :: str where
  "error_prefix =
     [0x274C] @ ascii '' ''
     @ [0x041A, 0x0440, 0x0438, 0x0442, 0x0438, 0x0447, 0x0435, 0x0441, 0x043A, 0x0430, 0x044F]
     @ ascii '' '' @ [0x043E, 0x0448, 0x0438, 0x0431, 0x043A, 0x0430] @ ascii '': ''"

text \<open>
  The tail of the error notice (handlers.py, lines 126-127). The literal:
  \<^verbatim>\<open>
    <LF><LF><U+041F><U+043E><U+0436><U+0430><U+043B><U+0443><U+0439><U+0441><U+0442>
    <U+0430>, <U+043F><U+043E><U+043F><U+0440><U+043E><U+0431><U+0443><U+0439><U+0442>
    <U+0435> <U+043F><U+043E><U+0437><U+0436><U+0435> <U+0438><U+043B><U+0438> <U+0443>
    <U+043F><U+0440><U+043E><U+0441><U+0442><U+0438><U+0442><U+0435> <U+0437><U+0430>
    <U+0434><U+0430><U+0447><U+0443>.
  \<close>
\<close>

definition error_suffix :: str where
  "error_suffix =
     [10, 10, 0x041F, 0x043E, 0x0436, 0x0430, 0x043B, 0x0443, 0x0439, 0x0441, 0x0442, 0x0430]
     @ ascii '', ''
     @ [0x043F, 0x043E, 0x043F, 0x0440, 0x043E, 0x0431, 0x0443, 0x0439, 0x0442, 0x0435]
     @ ascii '' '' @ [0x043F, 0x043E, 0x0437, 0x0436, 0x0435] @ ascii '' ''
     @ [0x0438, 0x043B, 0x0438] @ ascii '' ''
     @ [0x0443, 0x043F, 0x0440, 0x043E, 0x0441, 0x0442, 0x0438, 0x0442, 0x0435] @ ascii '' ''
     @ [0x0437, 0x0430, 0x0434, 0x0430, 0x0447, 0x0443] @ ascii ''.''"

text \<open>
  The reply of /reset (handlers.py, line 54). The literal:
  \<^verbatim>\<open>
    <U+1F9F9> <U+041F><U+0430><U+043C><U+044F><U+0442><U+044C> <U+043E><U+0447><U+0438>
    <U+0449><U+0435><U+043D><U+0430>!
  \<close>
\<close>

definition memory_cleared_text :: str where
  "memory_cleared_text =
     [0x1F9F9] @ ascii '' '' @ [0x041F, 0x0430, 0x043C, 0x044F, 0x0442, 0x044C] @ ascii '' ''
     @ [0x043E, 0x0447, 0x0438, 0x0449, 0x0435, 0x043D, 0x0430] @ ascii ''!''"

text \<open>\<^verbatim>\<open>AgentSystem.ROLES\<close> (agent_system.py, lines 23-29).\<close>

definition ROLES :: "(str \<times> str) list" where
  "ROLES =
     [(ascii ''user_proxy'', [0x1F464] @ ascii '' User Proxy''),
      (ascii ''analyst'', [0x1F9E0] @ ascii '' Analyst''),
      (ascii ''coder'', [0x1F468, 0x200D, 0x1F4BB] @ ascii '' Coder''),
      (ascii ''executor'', [0x2699, 0xFE0F] @ ascii '' Executor''),
      (ascii ''manager'', [0x1F916] @ ascii '' Manager'')]"

section \<open>The chat transport\<close>

text \<open>
  The Telegram client is outside the repository. What the code does with it is recorded
  as a log of events, and what the client answers is a parameter: a \<open>transport\<close> says, for
  the log that ends with the call being made, whether the call raises. So the answer to
  a call may depend on the call and on everything before it.

  The code tells two kinds of exception apart, \<^verbatim>\<open>except TelegramError\<close> and
  \<^verbatim>\<open>except Exception\<close>. \<open>ValueError\<close> is the one the repository raises itself, and
  \<open>AttributeError\<close> the one Python raises when a method is asked of \<^verbatim>\<open>None\<close>. Each carries
  the text of \<^verbatim>\<open>str(e)\<close>. Exceptions outside \<^verbatim>\<open>Exception\<close> (a keyboard interrupt, the
  cancellation of the task) end the process and are not modelled.
\<close>

datatype exn = TelegramError str | ValueError str | AttributeError str | OtherException str

fun is_TelegramError :: "exn \<Rightarrow> bool" where
  "is_TelegramError (TelegramError m) = True"
| "is_TelegramError (ValueError m) = False"
| "is_TelegramError (AttributeError m) = False"
| "is_TelegramError (OtherException m) = False"

fun str_exn :: "exn \<Rightarrow> str" where
  "str_exn (TelegramError m) = m"
| "str_exn (ValueError m) = m"
| "str_exn (AttributeError m) = m"
| "str_exn (OtherException m) = m"

text \<open>
  \<open>SendMessage chat_id text role\<close> is a call of \<^verbatim>\<open>TelegramInterface.send_message\<close> with
  the text and the role, on the interface of the chat: a delivery asked of the sink,
  whatever becomes of it. \<open>BotSendMessage chat_id text parse_mode\<close> is a call of
  \<^verbatim>\<open>bot.send_message\<close> (always with \<^verbatim>\<open>disable_web_page_preview=True\<close>), an attempt to
  send; \<open>ReplyText chat_id text parse_mode\<close> is a call of
  \<^verbatim>\<open>update.message.reply_text\<close>, and \<open>InitiateChat chat_id task\<close> the call of
  \<^verbatim>\<open>user_proxy.a_initiate_chat\<close> that hands the task to the agents.
\<close>

datatype event =
    SendMessage int str str
  | BotSendMessage int str "str option"
  | ReplyText int str "str option"
  | InitiateChat int str

type_synonym transport = "event list \<Rightarrow> exn option"

definition bot_send_message ::
  "transport \<Rightarrow> int \<Rightarrow> str \<Rightarrow> str option \<Rightarrow> event list \<Rightarrow> exn option \<times> event list" where
  "bot_send_message tg chat text parse_mode l =
     (let l' = l @ [BotSendMessage chat text parse_mode] in (tg l', l'))"

definition reply_text ::
  "transport \<Rightarrow> int \<Rightarrow> str \<Rightarrow> str option \<Rightarrow> event list \<Rightarrow> (exn + unit) \<times> event list" where
  "reply_text tg chat text parse_mode l =
     (let l' = l @ [ReplyText chat text parse_mode]
      in case tg l' of None \<Rightarrow> (Inr (), l') | Some e \<Rightarrow> (Inl e, l'))"

text \<open>\<^verbatim>\<open>constants.ParseMode.HTML\<close>.\<close>

definition HTML :: str where
  "HTML = ascii ''HTML''"

section \<open>TelegramInterface (bot/interface.py)\<close>

text \<open>
  \<^verbatim>\<open>TelegramInterface._format_message\<close> (interface.py, lines 70-114). The code fence is
  three grave accents (code point 96).
\<close>

definition fence :: str where
  "fence = [96, 96, 96]"

definition format_message :: "unicode \<Rightarrow> str \<Rightarrow> str \<Rightarrow> str" where
  "format_message U text role =
     (let content = strip U text;
          content =
            (if contains (ascii ''>>>>>>>> EXECUTING CODE BLOCK'') content
             then re_sub (match_banner U) code_running_html content
             else content);
          content =
            (if contains (ascii ''exitcode:'') content
             then replace (ascii ''execution failed'') failed_text
                    (replace (ascii ''execution succeeded'') succeeded_text
                      (replace (ascii ''Code output:'') result_html
                        (replace (ascii ''exitcode:'') status_html content)))
             else content);
          content =
            (if contains (fence @ ascii ''python'') content
             then replace fence (ascii ''</code></pre>'')
                    (replace (fence @ ascii ''python'') python_pre_html content)
             else if contains fence content
             then replace fence (ascii ''</code></pre>'')
                    (replace fence (ascii ''<pre><code>'') content)
             else content)
      in ascii ''<b>'' @ role @ ascii ''</b>'' @ [10, 10] @ content)"

text \<open>
  \<^verbatim>\<open>TelegramInterface.send_message\<close> (interface.py, lines 26-68). The result is
  \<open>Inr\<close> of the returned boolean or \<open>Inl\<close> of the exception that leaves the method, with
  the log: the call itself, then the calls of \<^verbatim>\<open>bot.send_message\<close> it made. The first
  \<^verbatim>\<open>except\<close> clause catches a \<^verbatim>\<open>TelegramError\<close> only, the one around the plain-text
  attempt catches every \<^verbatim>\<open>Exception\<close>.
\<close>

definition send_message ::
  "unicode \<Rightarrow> transport \<Rightarrow> int \<Rightarrow> str \<Rightarrow> str \<Rightarrow> event list \<Rightarrow> (exn + bool) \<times> event list" where
  "send_message U tg chat text role l =
     (let l0 = l @ [SendMessage chat text role]
      in if text = [] \<or> strip U text = [] then (Inr False, l0)
         else
           (case bot_send_message tg chat (format_message U text role) (Some HTML) l0 of
              (None, l1) \<Rightarrow> (Inr True, l1)
            | (Some e, l1) \<Rightarrow>
                if is_TelegramError e then
                  (let clean_text = re_sub match_tag [] text
                   in case bot_send_message tg chat (role @ [10, 10] @ clean_text) None l1 of
                        (None, l2) \<Rightarrow> (Inr True, l2)
                      | (Some e2, l2) \<Rightarrow> (Inr False, l2))
                else (Inl e, l1)))"

section \<open>AgentSystem (core/agent_system.py)\<close>

text \<open>
  Of an \<^verbatim>\<open>AgentSystem\<close> the model keeps the fields the repository's own code reads or
  writes after construction. \<^verbatim>\<open>__init__\<close> (lines 40-48) sets \<^verbatim>\<open>termination_detected\<close>
  to \<^verbatim>\<open>False\<close> and \<^verbatim>\<open>last_message\<close> to the empty string; the agents, the group chat and its
  manager that it builds belong to the external library.
\<close>

record agent_system =
  sys_chat_id :: int
  termination_detected :: bool
  last_message :: str

definition AgentSystem :: "int \<Rightarrow> agent_system" where
  "AgentSystem chat =
     \<lparr>sys_chat_id = chat, termination_detected = False, last_message = []\<rparr>"

text \<open>
  A message of the conversation is a dictionary. The code reads its key
  \<^verbatim>\<open>"content"\<close> with the default \<^verbatim>\<open>""\<close> and calls \<^verbatim>\<open>strip\<close> on what it gets (line 302).
  The content is a string, or an object that has no method \<^verbatim>\<open>strip\<close>: \<^verbatim>\<open>None\<close>, which the
  library stores for a message that only calls a tool, or a list of parts. For such an
  object, \<open>NoStrip\<close> with the name of its type, the call raises an \<^verbatim>\<open>AttributeError\<close>.
\<close>

datatype pyval = Str str | NoStrip str

definition PyNone :: pyval where
  "PyNone = NoStrip (ascii ''NoneType'')"

type_synonym message = "str \<rightharpoonup> pyval"

definition get_content :: "message \<Rightarrow> pyval" where
  "get_content m = (case m (ascii ''content'') of Some v \<Rightarrow> v | None \<Rightarrow> Str [])"

text \<open>
  The text of the exception, for \<^verbatim>\<open>None\<close>:
  \<^verbatim>\<open>'NoneType' object has no attribute 'strip'\<close>. The apostrophe is code point 39.
\<close>

definition has_no_strip :: "str \<Rightarrow> str" where
  "has_no_strip type_name =
     [39] @ type_name @ [39] @ ascii '' object has no attribute '' @ [39]
     @ ascii ''strip'' @ [39]"

text \<open>The label a regular message is shown under (agent_system.py, lines 315-319).\<close>

definition role_display :: "str \<Rightarrow> str \<Rightarrow> str" where
  "role_display agent_name content =
     (if contains (ascii ''>>>>>>>> EXECUTING CODE BLOCK'') content
         \<or> contains (ascii ''exitcode:'') content
      then executor_code_role
      else (case map_of ROLES agent_name of
              Some r \<Rightarrow> r
            | None \<Rightarrow> robot_prefix @ agent_name))"

type_synonym reply = "str option"

text \<open>
  \<^verbatim>\<open>AgentSystem._handle_message\<close> (agent_system.py, lines 276-345), the reply function
  registered with every agent. It returns the pair \<^verbatim>\<open>(should_terminate, None)\<close>, or
  raises what line 302 or \<^verbatim>\<open>send_message\<close> raises; with it come the agent system and the
  log as the call leaves them. In the branch of the completion token
  \<^verbatim>\<open>termination_detected\<close> is set first (line 324); when \<^verbatim>\<open>send_message\<close> raises there,
  \<^verbatim>\<open>last_message\<close> is not yet set. The calls of the logger are not modelled.
\<close>

definition agent_handle_message ::
  "unicode \<Rightarrow> transport \<Rightarrow> agent_system \<Rightarrow> str \<Rightarrow> message list \<Rightarrow> event list
     \<Rightarrow> (exn + bool \<times> reply) \<times> agent_system \<times> event list" where
  "agent_handle_message U tg self agent_name messages l =
     (if messages = [] then (Inr (False, None), self, l)
      else
        (case get_content (last messages) of
           NoStrip type_name \<Rightarrow> (Inl (AttributeError (has_no_strip type_name)), self, l)
         | Str raw \<Rightarrow>
        (let content = strip U raw
         in if content = [] then (Inr (False, None), self, l)
            else if contains (ascii ''Next speaker:'') content
                    \<or> contains (ascii ''next speaker'') (lower U content)
                    \<or> contains (ascii ''##'') (lower U content)
            then (Inr (False, None), self, l)
            else
              (let role = role_display agent_name content
               in if contains (ascii ''TERMINATE'') (upper U content) then
                    (let self1 = self\<lparr>termination_detected := True\<rparr>;
                         clean_content = strip U (replace (ascii ''TERMINATE'') [] content)
                     in if clean_content \<noteq> [] then
                          (case send_message U tg (sys_chat_id self) clean_content
                                  final_answer_role l of
                             (Inl e, l') \<Rightarrow> (Inl e, self1, l')
                           | (Inr sent, l') \<Rightarrow>
                               (Inr (True, None), self1\<lparr>last_message := clean_content\<rparr>, l'))
                        else
                          (case send_message U tg (sys_chat_id self) default_answer
                                  final_answer_role l of
                             (Inl e, l') \<Rightarrow> (Inl e, self1, l')
                           | (Inr sent, l') \<Rightarrow>
                               (Inr (True, None), self1\<lparr>last_message := default_answer\<rparr>, l')))
                  else
                    (case send_message U tg (sys_chat_id self) content role l of
                       (Inl e, l') \<Rightarrow> (Inl e, self, l')
                     | (Inr sent, l') \<Rightarrow> (Inr (False, None), self, l'))))))"

section \<open>The classification of a message\<close>

text \<open>
  The code has no classifier of its own: \<^verbatim>\<open>_handle_message\<close> decides what a message is
  by a chain of tests on its text, and acts between the tests (agent_system.py, lines
  302, 306, 310 and 322-325). The chain alone is \<open>classify\<close>, with the payload the handler
  goes on with. \<open>classify\<close> is a reading of the handler, not a part of it: what it says
  about the handler is what the theorems below prove of \<open>agent_handle_message\<close>.
\<close>

datatype classification = Service | Termination str | Content str

text \<open>The test of line 310, on the trimmed text.\<close>

definition service_signature :: "unicode \<Rightarrow> str \<Rightarrow> bool" where
  "service_signature U content =
     (contains (ascii ''Next speaker:'') content
      \<or> contains (ascii ''next speaker'') (lower U content)
      \<or> contains (ascii ''##'') (lower U content))"

definition classify :: "unicode \<Rightarrow> str \<Rightarrow> classification" where
  "classify U text =
     (let content = strip U text
      in if content = [] then Service
         else if service_signature U content then Service
         else if contains (ascii ''TERMINATE'') (upper U content)
         then Termination (strip U (replace (ascii ''TERMINATE'') [] content))
         else Content content)"

text \<open>
  What a call of the reply function lets the sink see of the class of the message. The
  call was made with the log \<open>l\<close> and has left the log \<open>l'\<close>; the events it has added
  begin with the delivery it asked for, if it asked for one. A delivery under the label
  of the final answer is a completion message, a delivery under another label a regular
  message, and no delivery is a message passed over. The class is read off the log
  alone: not off the text, and not off the state of the agent system.
\<close>

fun class_of_events :: "event list \<Rightarrow> classification" where
  "class_of_events (SendMessage c text role # es) =
     (if role = final_answer_role then Termination text else Content text)"
| "class_of_events es = Service"

definition observed_class ::
  "event list \<Rightarrow> (exn + bool \<times> reply) \<times> agent_system \<times> event list \<Rightarrow> classification" where
  "observed_class l out = (case out of (r, self', l') \<Rightarrow> class_of_events (drop (length l) l'))"

text \<open>
  The class as the sink sees it: a completion message with nothing left of it is
  delivered as the default final message.
\<close>

fun delivered_class :: "classification \<Rightarrow> classification" where
  "delivered_class Service = Service"
| "delivered_class (Termination payload) =
     Termination (if payload \<noteq> [] then payload else default_answer)"
| "delivered_class (Content payload) = Content payload"

section \<open>Running a task (core/agent_system.py)\<close>

text \<open>
  \<^verbatim>\<open>user_proxy.a_initiate_chat\<close> runs the group chat of the external library: which agent
  speaks, what it says and how many rounds there are is decided there and by the
  language model. All the repository's code sees of it is that the reply function
  \<^verbatim>\<open>_handle_message\<close>, registered with every agent and with the manager (lines 256-274),
  is called some number of times, and that the call returns or raises in the end. A
  \<open>group_chat\<close> is one such behaviour, any one: \<open>Intercept agent_name messages k\<close> calls
  the reply function for the agent with the messages and goes on as \<open>k\<close> says, given what
  the reply function returned or raised; \<open>Finished\<close> returns; \<open>Failed e\<close> raises \<open>e\<close>. The
  claims below are proved for every \<open>group_chat\<close>.
\<close>

datatype group_chat =
    Finished
  | Failed exn
  | Intercept str "message list" "exn + bool \<times> reply \<Rightarrow> group_chat"

primrec a_initiate_chat ::
  "unicode \<Rightarrow> group_chat \<Rightarrow> transport \<Rightarrow> agent_system \<Rightarrow> event list
     \<Rightarrow> exn option \<times> agent_system \<times> event list" where
  "a_initiate_chat U Finished tg self l = (None, self, l)"
| "a_initiate_chat U (Failed e) tg self l = (Some e, self, l)"
| "a_initiate_chat U (Intercept agent_name messages k) tg self l =
     (case agent_handle_message U tg self agent_name messages l of
        (r, self', l') \<Rightarrow> a_initiate_chat U (k r) tg self' l')"

text \<open>
  \<^verbatim>\<open>AgentSystem.run_task\<close> (agent_system.py, lines 347-374). An exception of the chat is
  logged and raised again (lines 366-368); otherwise the two fields are returned.
\<close>

definition run_task ::
  "unicode \<Rightarrow> transport \<Rightarrow> agent_system \<Rightarrow> str \<Rightarrow> group_chat \<Rightarrow> event list
     \<Rightarrow> (exn + bool \<times> str) \<times> agent_system \<times> event list" where
  "run_task U tg self task chat l =
     (case a_initiate_chat U chat tg self (l @ [InitiateChat (sys_chat_id self) task]) of
        (Some e, self', l') \<Rightarrow> (Inl e, self', l')
      | (None, self', l') \<Rightarrow>
          (Inr (termination_detected self', last_message self'), self', l'))"

text \<open>
  What the reply function is shown in the course of a chat, in order: for every call
  made with a list of messages that is not empty, the name of the agent and the content
  of the last message.
\<close>

primrec intercepted ::
  "unicode \<Rightarrow> group_chat \<Rightarrow> transport \<Rightarrow> agent_system \<Rightarrow> event list \<Rightarrow> (str \<times> pyval) list" where
  "intercepted U Finished tg self l = []"
| "intercepted U (Failed e) tg self l = []"
| "intercepted U (Intercept agent_name messages k) tg self l =
     (case agent_handle_message U tg self agent_name messages l of
        (r, self', l') \<Rightarrow>
          (if messages = [] then [] else [(agent_name, get_content (last messages))])
          @ intercepted U (k r) tg self' l')"

text \<open>The class of what the reply function is shown; what is no string has none.\<close>

fun class_of :: "unicode \<Rightarrow> pyval \<Rightarrow> classification option" where
  "class_of U (Str text) = Some (classify U text)"
| "class_of U (NoStrip type_name) = None"

fun is_Termination :: "classification option \<Rightarrow> bool" where
  "is_Termination (Some (Termination payload)) = True"
| "is_Termination c = False"

text \<open>
  The deliveries of the regular messages among what the reply function was shown: one
  for each text of class \<open>Content\<close>, with its payload, under the label of its agent.
\<close>

fun content_delivery :: "unicode \<Rightarrow> int \<Rightarrow> str \<times> pyval \<Rightarrow> event list" where
  "content_delivery U chat (agent_name, v) =
     (case class_of U v of
        Some (Content payload) \<Rightarrow> [SendMessage chat payload (role_display agent_name payload)]
      | _ \<Rightarrow> [])"

fun is_SendMessage :: "event \<Rightarrow> bool" where
  "is_SendMessage (SendMessage c x r) = True"
| "is_SendMessage (BotSendMessage c x p) = False"
| "is_SendMessage (ReplyText c x p) = False"
| "is_SendMessage (InitiateChat c x) = False"

section \<open>Sessions (core/session_manager.py)\<close>

text \<open>
  A \<^verbatim>\<open>Session\<close> is an object: the handler that runs a task keeps a reference to it while
  the registry may drop it or map the chat to another one. So the sessions live in a
  store, \<open>heap\<close>, under addresses, and the dictionary \<^verbatim>\<open>SessionManager.sessions\<close> maps a
  chat id to an address. \<open>next_addr\<close> is the first address not yet given out; what the
  store holds at an address not yet given out is of no account. The \<open>world\<close> is the
  state the handlers share, with the log of the transport.
\<close>

datatype bot = Bot

datatype event_loop = EventLoop

record session =
  chat_id :: int
  is_busy :: bool
  bot :: "bot option"
  loop :: "event_loop option"

text \<open>\<^verbatim>\<open>Session.__init__\<close> (session_manager.py, lines 16-26).\<close>

definition Session :: "int \<Rightarrow> session" where
  "Session chat = \<lparr>chat_id = chat, is_busy = False, bot = None, loop = None\<rparr>"

type_synonym addr = nat

record world =
  sessions :: "int \<rightharpoonup> addr"
  heap :: "addr \<Rightarrow> session"
  next_addr :: addr
  events :: "event list"

text \<open>The registry as \<^verbatim>\<open>SessionManager.__new__\<close> leaves it (lines 65-70), and an empty log.\<close>

definition SessionManager :: world where
  "SessionManager =
     \<lparr>sessions = Map.empty, heap = (\<lambda>a. Session 0), next_addr = 0, events = []\<rparr>"

text \<open>\<^verbatim>\<open>SessionManager.get_session\<close> (lines 72-84): the session's address and the world.\<close>

definition get_session :: "int \<Rightarrow> world \<Rightarrow> addr \<times> world" where
  "get_session chat w =
     (case sessions w chat of
        Some a \<Rightarrow> (a, w)
      | None \<Rightarrow>
          (next_addr w,
           w\<lparr>sessions := (sessions w)(chat \<mapsto> next_addr w),
             heap := (heap w)(next_addr w := Session chat),
             next_addr := Suc (next_addr w)\<rparr>))"

text \<open>\<^verbatim>\<open>SessionManager.clear_session\<close> (lines 86-95).\<close>

definition clear_session :: "int \<Rightarrow> world \<Rightarrow> world" where
  "clear_session chat w =
     (if chat \<in> dom (sessions w) then w\<lparr>sessions := (sessions w)(chat := None)\<rparr> else w)"

text \<open>The assignment \<^verbatim>\<open>session.is_busy = b\<close> to the session at address \<open>a\<close>.\<close>

definition set_is_busy :: "addr \<Rightarrow> bool \<Rightarrow> world \<Rightarrow> world" where
  "set_is_busy a b w = w\<lparr>heap := (heap w)(a := (heap w a)\<lparr>is_busy := b\<rparr>)\<rparr>"

text \<open>\<^verbatim>\<open>Session.set_context\<close> (lines 28-37), on the session at address \<open>a\<close>.\<close>

definition set_context :: "addr \<Rightarrow> bot \<Rightarrow> event_loop \<Rightarrow> world \<Rightarrow> world" where
  "set_context a b lp w = w\<lparr>heap := (heap w)(a := (heap w a)\<lparr>bot := Some b, loop := Some lp\<rparr>)\<rparr>"

text \<open>What a call does to the log of the transport, done to the world.\<close>

definition on_events :: "(event list \<Rightarrow> 'a \<times> event list) \<Rightarrow> world \<Rightarrow> 'a \<times> world" where
  "on_events m w = (case m (events w) of (r, l) \<Rightarrow> (r, w\<lparr>events := l\<rparr>))"

text \<open>
  \<^verbatim>\<open>Session.run_task\<close> (lines 39-56), on the session at address \<open>a\<close>: a new
  \<^verbatim>\<open>AgentSystem\<close> for every task. The handlers are coroutines of one event loop: while
  this one waits for the chat, others may run. \<open>others\<close> is what they do to the world in
  that time; it takes effect before the chat returns or raises. With the identity for
  \<open>others\<close> the task runs undisturbed.
\<close>

definition session_run_task ::
  "unicode \<Rightarrow> transport \<Rightarrow> addr \<Rightarrow> str \<Rightarrow> group_chat \<Rightarrow> (world \<Rightarrow> world) \<Rightarrow> world
     \<Rightarrow> (exn + bool \<times> str) \<times> world" where
  "session_run_task U tg a task chat others w =
     (let self = heap w a
      in if bot self = None \<or> loop self = None
         then (Inl (ValueError (ascii ''Bot context not set'')), w)
         else
           (case run_task U tg (AgentSystem (chat_id self)) task chat (events w) of
              (r, agent_system, l) \<Rightarrow> (r, others (w\<lparr>events := l\<rparr>))))"

section \<open>The handlers (bot/handlers.py)\<close>

text \<open>One awaited call after the other; an exception ends the sequence.\<close>

definition and_then ::
  "(world \<Rightarrow> (exn + 'a) \<times> world) \<Rightarrow> ('a \<Rightarrow> world \<Rightarrow> (exn + 'b) \<times> world)
     \<Rightarrow> world \<Rightarrow> (exn + 'b) \<times> world" where
  "and_then m f w = (case m w of (Inl e, w') \<Rightarrow> (Inl e, w') | (Inr x, w') \<Rightarrow> f x w')"

text \<open>\<^verbatim>\<open>reset\<close> (handlers.py, lines 42-54).\<close>

definition reset :: "transport \<Rightarrow> int \<Rightarrow> world \<Rightarrow> (exn + unit) \<times> world" where
  "reset tg chat w =
     on_events (reply_text tg chat memory_cleared_text (Some HTML)) (clear_session chat w)"

text \<open>
  The body of the \<^verbatim>\<open>try\<close> statement of \<^verbatim>\<open>handle_message\<close> (handlers.py, lines 90-117), for
  the session at address \<open>a\<close>.
\<close>

definition handle_message_try ::
  "unicode \<Rightarrow> transport \<Rightarrow> int \<Rightarrow> addr \<Rightarrow> str \<Rightarrow> group_chat \<Rightarrow> (world \<Rightarrow> world) \<Rightarrow> world
     \<Rightarrow> (exn + unit) \<times> world" where
  "handle_message_try U tg chat a text conv others w =
     and_then (on_events (send_message U tg chat text user_role)) (\<lambda>sent.
     and_then (on_events (send_message U tg chat starting_text system_role)) (\<lambda>sent.
     and_then (session_run_task U tg a text conv others) (\<lambda>(termination_detected, answer).
     and_then (on_events (send_message U tg chat
                 (if termination_detected then success_text else incomplete_text) system_role))
       (\<lambda>sent w'. (Inr (), w')))))
       (set_context a Bot EventLoop (set_is_busy a True w))"

text \<open>
  \<^verbatim>\<open>handle_message\<close> (handlers.py, lines 57-131). \<open>message_text\<close> is
  \<^verbatim>\<open>update.message.text\<close>, or \<open>None\<close> when the update has no message or no text. The
  \<^verbatim>\<open>except\<close> clause reports the exception to the user; the \<^verbatim>\<open>finally\<close> clause writes to
  the session the handler got at its start, whatever the registry holds by then.
\<close>

definition handle_message ::
  "unicode \<Rightarrow> transport \<Rightarrow> int \<Rightarrow> str option \<Rightarrow> group_chat \<Rightarrow> (world \<Rightarrow> world) \<Rightarrow> world
     \<Rightarrow> (exn + unit) \<times> world" where
  "handle_message U tg chat message_text conv others w =
     (case message_text of
        None \<Rightarrow> (Inr (), w)
      | Some t \<Rightarrow>
          if t = [] then (Inr (), w)
          else
            (let text = strip U t
             in if text = [] then (Inr (), w)
                else
                  (case get_session chat w of
                     (a, w1) \<Rightarrow>
                       if is_busy (heap w1 a)
                       then on_events (reply_text tg chat wait_notice None) w1
                       else
                         (case handle_message_try U tg chat a text conv others w1 of
                            (Inr u, w2) \<Rightarrow> (Inr (), set_is_busy a False w2)
                          | (Inl e, w2) \<Rightarrow>
                              (case on_events
                                      (send_message U tg chat
                                         (error_prefix @ str_exn e @ error_suffix) system_role)
                                      w2 of
                                 (Inl e2, w3) \<Rightarrow> (Inl e2, set_is_busy a False w3)
                               | (Inr sent, w3) \<Rightarrow> (Inr (), set_is_busy a False w3))))))"

text \<open>
  The notice that ends a task, by what \<^verbatim>\<open>Session.run_task\<close> returned or raised (lines
  108-117 and 125-128).
\<close>

fun final_notice :: "exn + bool \<times> str \<Rightarrow> str" where
  "final_notice (Inl e) = error_prefix @ str_exn e @ error_suffix"
| "final_notice (Inr (terminated, answer)) =
     (if terminated then success_text else incomplete_text)"

section \<open>The spec's words\<close>





text \<open>
  Following the spec's words: a text matches a meta or control signature when it has an
  explicit turn-announcement line or is a pure routing marker. A turn-announcement line
  is a line that begins, after white space, with \<^verbatim>\<open>Next speaker:\<close>; a pure routing marker
  is a text of nothing but the marks \<^verbatim>\<open>#\<close> (code point 35), two or more. The lines of a
  text are what stands between its line feeds (code point 10).
\<close>

fun lines_of :: "str \<Rightarrow> str list" where
  "lines_of [] = [[]]"
| "lines_of (c # cs) =
     (if c = 10 then [] # lines_of cs
      else (case lines_of cs of
              [] \<Rightarrow> [[c]]
            | ln # lns \<Rightarrow> (c # ln) # lns))"

definition turn_announcement_line :: "unicode \<Rightarrow> str \<Rightarrow> bool" where
  "turn_announcement_line U ln = prefix (ascii ''Next speaker:'') (strip U ln)"

definition pure_routing_marker :: "unicode \<Rightarrow> str \<Rightarrow> bool" where
  "pure_routing_marker U text =
     (2 \<le> length (strip U text) \<and> list_all (\<lambda>c. c = 35) (strip U text))"

definition spec_signature :: "unicode \<Rightarrow> str \<Rightarrow> bool" where
  "spec_signature U text =
     (list_ex (turn_announcement_line U) (lines_of text) \<or> pure_routing_marker U text)"

section \<open>Invariants and examples\<close>

text \<open>
  The registry is in order when every chat is mapped to an address already given out,
  and the session there was made for that chat. The empty registry is in order, and
  \<open>get_session\<close> and \<open>clear_session\<close> keep it so.
\<close>

definition registry_ok :: "world \<Rightarrow> bool" where
  "registry_ok w =
     (\<forall>c a. sessions w c = Some a \<longrightarrow> a < next_addr w \<and> chat_id (heap w a) = c)"

text \<open>A transport whose calls fail with a \<open>TelegramError\<close> or not at all.\<close>

definition telegram_only :: "transport \<Rightarrow> bool" where
  "telegram_only tg = (\<forall>l e. tg l = Some e \<longrightarrow> is_TelegramError e)"

text \<open>
  The examples are texts of ASCII characters, with the bot's own texts around them. For
  them the parameter \<open>ascii_tables\<close> will do: it has the white space, the letters and the
  digits of ASCII, as Python has them, and no others. On a text with other code points
  Python may differ from it; the theorems are about every parameter, and \<open>ascii_tables\<close>
  stands in the examples only.
\<close>

definition ascii_upper :: "int \<Rightarrow> int" where
  "ascii_upper c = (if 97 \<le> c \<and> c \<le> 122 then c - 32 else c)"

definition ascii_lower :: "int \<Rightarrow> int" where
  "ascii_lower c = (if 65 \<le> c \<and> c \<le> 90 then c + 32 else c)"

definition ascii_tables :: unicode where
  "ascii_tables =
     \<lparr>isspace = ascii_isspace,
      upper = map ascii_upper,
      lower = map ascii_lower,
      isdecimal = (\<lambda>c. 48 \<le> c \<and> c \<le> 57),
      isalnum = (\<lambda>c. (48 \<le> c \<and> c \<le> 57) \<or> (65 \<le> c \<and> c \<le> 90) \<or> (97 \<le> c \<and> c \<le> 122))\<rparr>"

text \<open>
  Worlds and chats for the examples. In \<open>busy_world\<close> a task for chat 7 is running: the
  registry maps the chat to the session at address 0, whose busy flag is set.
  \<open>noise_chat\<close> is three rounds of noise: a turn announcement, a routing marker and a
  blank message; the chat then returns, as it does when the rounds are used up. In
  \<open>task_then_noise\<close> the reply function of the manager is shown the task first, as the
  library does with the message \<^verbatim>\<open>a_initiate_chat\<close> sends to the manager (lines 361-365),
  and the three rounds of noise follow. \<open>answer_chat\<close> is a chat in which the manager
  sees the task and the analyst's answer ends with the completion token; the chat ends
  when the reply function says so.
\<close>

definition busy_world :: world where
  "busy_world =
     \<lparr>sessions = [7 \<mapsto> 0],
      heap = (\<lambda>a. \<lparr>chat_id = 7, is_busy = (a = 0), bot = Some Bot, loop = Some EventLoop\<rparr>),
      next_addr = 1,
      events = [InitiateChat 7 (ascii ''first task'')]\<rparr>"

definition msg :: "string \<Rightarrow> message" where
  "msg s = [ascii ''content'' \<mapsto> Str (ascii s)]"

definition noise_chat :: group_chat where
  "noise_chat =
     Intercept (ascii ''analyst'') [msg ''Next speaker: coder''] (\<lambda>r.
     Intercept (ascii ''coder'') [msg ''## routing''] (\<lambda>r.
     Intercept (ascii ''executor'') [msg ''   ''] (\<lambda>r. Finished)))"

definition task_then_noise :: group_chat where
  "task_then_noise = Intercept (ascii ''manager'') [msg ''what is 2+2''] (\<lambda>r. noise_chat)"

definition answer_chat :: group_chat where
  "answer_chat =
     Intercept (ascii ''manager'') [msg ''what is 2+2''] (\<lambda>r.
     Intercept (ascii ''analyst'') [msg ''what is 2+2'', msg ''4. TERMINATE'']
       (\<lambda>r. case r of
               Inl e \<Rightarrow> Failed e
             | Inr (should_terminate, reply) \<Rightarrow>
                 if should_terminate then Finished
                 else Intercept (ascii ''coder'') [msg ''4. TERMINATE''] (\<lambda>r. Finished)))"

text \<open>A chat that raises after the manager has seen the task.\<close>

definition failing_chat :: group_chat where
  "failing_chat =
     Intercept (ascii ''manager'') [msg ''what is 2+2'']
       (\<lambda>r. Failed (OtherException (ascii ''model unreachable'')))"

text \<open>
  Whether an event of the log is a call of \<^verbatim>\<open>TelegramInterface.send_message\<close> or of
  \<^verbatim>\<open>bot.send_message\<close>.
\<close>

fun is_delivery :: "event \<Rightarrow> bool" where
  "is_delivery (SendMessage c x r) = True"
| "is_delivery (BotSendMessage c x p) = True"
| "is_delivery (ReplyText c x p) = False"
| "is_delivery (InitiateChat c x) = False"

section \<open>Facts about the string functions\<close>

lemma contains_sublist: "contains sub s \<longleftrightarrow> sublist sub s"
  by (induction s) (auto simp: sublist_Cons_right)

lemma contains_Nil [simp]: "contains (x # xs) [] = False"
  by simp

lemma strip_Nil [simp]: "strip U [] = []"
  by (simp add: strip_def)












section \<open>Facts about the reply function\<close>

lemma agent_handle_message_Nil:
  "agent_handle_message U tg self agent_name [] l = (Inr (False, None), self, l)"
  by (simp add: agent_handle_message_def)

lemma agent_handle_message_None:
  assumes "messages \<noteq> []" and "get_content (last messages) = NoStrip type_name"
  shows "agent_handle_message U tg self agent_name messages l =
           (Inl (AttributeError (has_no_strip type_name)), self, l)"
  using assms by (simp add: agent_handle_message_def)

text \<open>What the reply function does with a text of each class.\<close>

lemma agent_handle_message_Service:
  assumes "messages \<noteq> []" and "get_content (last messages) = Str text"
    and "classify U text = Service"
  shows "agent_handle_message U tg self agent_name messages l = (Inr (False, None), self, l)"
  using assms
  by (auto simp: agent_handle_message_def classify_def service_signature_def Let_def
        split: if_splits)

lemma agent_handle_message_Termination:
  assumes "messages \<noteq> []" and "get_content (last messages) = Str text"
    and "classify U text = Termination p"
  shows "agent_handle_message U tg self agent_name messages l =
           (case send_message U tg (sys_chat_id self) (if p \<noteq> [] then p else default_answer)
                   final_answer_role l of
              (Inl e, l') \<Rightarrow> (Inl e, self\<lparr>termination_detected := True\<rparr>, l')
            | (Inr sent, l') \<Rightarrow>
                (Inr (True, None),
                 self\<lparr>termination_detected := True,
                      last_message := (if p \<noteq> [] then p else default_answer)\<rparr>, l'))"
  using assms
  by (auto simp: agent_handle_message_def classify_def service_signature_def Let_def
        split: if_splits)

lemma agent_handle_message_Content:
  assumes "messages \<noteq> []" and "get_content (last messages) = Str text"
    and "classify U text = Content p"
  shows "agent_handle_message U tg self agent_name messages l =
           (case send_message U tg (sys_chat_id self) p (role_display agent_name p) l of
              (Inl e, l') \<Rightarrow> (Inl e, self, l')
            | (Inr sent, l') \<Rightarrow> (Inr (False, None), self, l'))"
  using assms
  by (auto simp: agent_handle_message_def classify_def service_signature_def Let_def
        split: if_splits)

text \<open>
  A call of \<open>send_message\<close> adds to the log the call itself and then attempts to send,
  none or more. It raises nothing but what the first attempt raises, and that is no
  \<open>TelegramError\<close>.
\<close>

lemma send_message_log:
  "\<exists>r bs. send_message U tg chat text role l = (r, l @ SendMessage chat text role # bs)
      \<and> filter is_SendMessage bs = []
      \<and> (\<forall>e. r = Inl e \<longrightarrow> \<not> is_TelegramError e)"
  by (auto simp: send_message_def bot_send_message_def Let_def split: option.splits)

text \<open>No agent is shown under the label of the final answer.\<close>

lemma role_display_not_final: "role_display agent_name content \<noteq> final_answer_role"
proof -
  have "hd final_answer_role = 0x1F3AF" by (simp add: final_answer_role_def)
  moreover have "hd (role_display agent_name content) \<noteq> 0x1F3AF"
    by (auto simp: role_display_def executor_code_role_def robot_prefix_def ROLES_def ascii_def
          split: option.splits if_splits)
  ultimately show ?thesis by metis
qed

text \<open>
  The outcome of a call on a text of class \<open>Termination\<close> or \<open>Content\<close>: the log gains the
  delivery asked for and attempts to send.
\<close>

lemma agent_handle_message_Termination_log:
  assumes "messages \<noteq> []" and "get_content (last messages) = Str text"
    and "classify U text = Termination p"
  shows "\<exists>r bs. agent_handle_message U tg self agent_name messages l =
           (r,
            (case r of
               Inl e \<Rightarrow> self\<lparr>termination_detected := True\<rparr>
             | Inr x \<Rightarrow> self\<lparr>termination_detected := True,
                             last_message := (if p \<noteq> [] then p else default_answer)\<rparr>),
            l @ SendMessage (sys_chat_id self) (if p \<noteq> [] then p else default_answer)
                  final_answer_role # bs)
      \<and> filter is_SendMessage bs = []
      \<and> (case r of Inl e \<Rightarrow> \<not> is_TelegramError e | Inr x \<Rightarrow> x = (True, None))"
proof -
  obtain r bs where
    s: "send_message U tg (sys_chat_id self) (if p \<noteq> [] then p else default_answer)
          final_answer_role l
        = (r, l @ SendMessage (sys_chat_id self) (if p \<noteq> [] then p else default_answer)
                    final_answer_role # bs)"
    and f: "filter is_SendMessage bs = []" and e: "\<forall>e. r = Inl e \<longrightarrow> \<not> is_TelegramError e"
    using send_message_log by blast
  show ?thesis
    using f e
    unfolding agent_handle_message_Termination [OF assms] s
    by (cases r) auto
qed

lemma agent_handle_message_Content_log:
  assumes "messages \<noteq> []" and "get_content (last messages) = Str text"
    and "classify U text = Content p"
  shows "\<exists>r bs. agent_handle_message U tg self agent_name messages l =
           (r, self, l @ SendMessage (sys_chat_id self) p (role_display agent_name p) # bs)
      \<and> filter is_SendMessage bs = []
      \<and> (case r of Inl e \<Rightarrow> \<not> is_TelegramError e | Inr x \<Rightarrow> x = (False, None))"
proof -
  obtain r bs where
    s: "send_message U tg (sys_chat_id self) p (role_display agent_name p) l
        = (r, l @ SendMessage (sys_chat_id self) p (role_display agent_name p) # bs)"
    and f: "filter is_SendMessage bs = []" and e: "\<forall>e. r = Inl e \<longrightarrow> \<not> is_TelegramError e"
    using send_message_log by blast
  show ?thesis
    using f e
    unfolding agent_handle_message_Content [OF assms] s
    by (cases r) auto
qed

section \<open>Facts about the interface\<close>

lemma match_tag_shorter: "match_tag s = Some rest \<Longrightarrow> length rest < length s"
proof (cases s)
  case Nil
  then show "match_tag s = Some rest \<Longrightarrow> length rest < length s"
    by (simp add: match_tag_def)
next
  case (Cons c cs)
  assume m: "match_tag s = Some rest"
  then obtain g where "dropWhile (\<lambda>x. x \<noteq> 62) cs = g # rest"
    using Cons by (auto simp: match_tag_def split: if_splits list.splits)
  then have "length (g # rest) \<le> length cs"
    using length_dropWhile_le [of "\<lambda>x. x \<noteq> 62" cs] by simp
  then show "length rest < length s" using Cons by simp
qed

lemma strip_prefix_length: "strip_prefix p s = Some r \<Longrightarrow> length r + length p = length s"
  by (auto simp: strip_prefix_def prefix_def split: if_splits)

lemma match_plus_shorter:
  assumes "\<And>x r. k x = Some r \<Longrightarrow> length r \<le> length x"
  shows "match_plus p k s = Some rest \<Longrightarrow> length rest < length s"
proof (induction s)
  case Nil
  then show ?case by simp
next
  case (Cons c cs)
  then show ?case
    using assms [of cs rest] by (auto split: if_splits option.splits)
qed

lemma match_banner_shorter:
  assumes "match_banner U s = Some rest"
  shows "length rest < length s"
proof -
  let ?k2 = "strip_prefix (ascii '')...'')"
  let ?k1 = "\<lambda>r. case strip_prefix (ascii '' (inferred language is '') r of
                    None \<Rightarrow> None
                  | Some r2 \<Rightarrow> match_plus (isword U) ?k2 r2"
  from assms obtain r1
    where 1: "strip_prefix (ascii ''>>>>>>>> EXECUTING CODE BLOCK '') s = Some r1"
      and 2: "match_plus (isdigit U) ?k1 r1 = Some rest"
    by (auto simp: match_banner_def split: option.splits)
  have k2: "\<And>x r. ?k2 x = Some r \<Longrightarrow> length r \<le> length x"
    using strip_prefix_length by fastforce
  have k1: "length r \<le> length x" if "?k1 x = Some r" for x r
  proof -
    from that obtain r2 where a: "strip_prefix (ascii '' (inferred language is '') x = Some r2"
      and b: "match_plus (isword U) ?k2 r2 = Some r"
      by (auto split: option.splits)
    have "length r < length r2" using match_plus_shorter [OF k2 b] .
    then show ?thesis using strip_prefix_length [OF a] by simp
  qed
  have "length rest < length r1" using match_plus_shorter [OF k1 2] .
  then show ?thesis using strip_prefix_length [OF 1] by simp
qed

lemma send_message_blank:
  "strip U text = [] \<Longrightarrow>
   send_message U tg chat text role l = (Inr False, l @ [SendMessage chat text role])"
  by (simp add: send_message_def)

text \<open>
  \<open>send_message\<close> over a transport whose first attempt does not raise, or raises a
  \<open>TelegramError\<close>: it returns, and says whether one of the two attempts went through.
\<close>

lemma send_message_degrades:
  assumes "strip U text \<noteq> []"
    and "\<forall>e. tg (l @ [SendMessage chat text role,
                       BotSendMessage chat (format_message U text role) (Some HTML)]) = Some e
             \<longrightarrow> is_TelegramError e"
  shows "send_message U tg chat text role l =
    (let l1 = l @ [SendMessage chat text role,
                   BotSendMessage chat (format_message U text role) (Some HTML)];
         l2 = l1 @ [BotSendMessage chat (role @ [10, 10] @ re_sub match_tag [] text) None]
     in if tg l1 = None then (Inr True, l1)
        else if tg l2 = None then (Inr True, l2)
        else (Inr False, l2))"
proof -
  have "text \<noteq> []" using assms(1) by auto
  then show ?thesis
    using assms
    by (auto simp: send_message_def bot_send_message_def Let_def split: option.splits)
qed

section \<open>Facts about a chat\<close>

text \<open>
  A call of the reply function on a message that is no completion message leaves the
  agent system as it was, and adds to the deliveries the one of the message, if the
  message is a regular one.
\<close>

lemma agent_handle_message_step:
  assumes "messages \<noteq> []"
    and "\<not> is_Termination (class_of U (get_content (last messages)))"
  shows "fst (snd (agent_handle_message U tg self agent_name messages l)) = self
       \<and> filter is_SendMessage (snd (snd (agent_handle_message U tg self agent_name messages l)))
           = filter is_SendMessage l
             @ content_delivery U (sys_chat_id self) (agent_name, get_content (last messages))"
proof (cases "get_content (last messages)")
  case (NoStrip type_name)
  then show ?thesis using assms(1) by (simp add: agent_handle_message_None)
next
  case (Str raw)
  show ?thesis
  proof (cases "classify U raw")
    case Service
    then show ?thesis
      using Str assms(1) by (simp add: agent_handle_message_Service)
  next
    case (Termination p)
    then show ?thesis using assms(2) Str by simp
  next
    case (Content p)
    obtain r bs where
      "agent_handle_message U tg self agent_name messages l =
         (r, self, l @ SendMessage (sys_chat_id self) p (role_display agent_name p) # bs)"
      and "filter is_SendMessage bs = []"
      using agent_handle_message_Content_log [OF assms(1) Str Content] by blast
    then show ?thesis using Str Content by simp
  qed
qed

lemma a_initiate_chat_deliveries:
  "\<forall>x\<in>set (intercepted U chat tg self l). \<not> is_Termination (class_of U (snd x)) \<Longrightarrow>
   fst (snd (a_initiate_chat U chat tg self l)) = self
   \<and> filter is_SendMessage (snd (snd (a_initiate_chat U chat tg self l)))
       = filter is_SendMessage l
         @ concat (map (content_delivery U (sys_chat_id self)) (intercepted U chat tg self l))"
proof (induction chat arbitrary: l)
  case Finished
  then show ?case by simp
next
  case (Failed e)
  then show ?case by simp
next
  case (Intercept agent_name messages k)
  obtain r self' l' where
    h: "agent_handle_message U tg self agent_name messages l = (r, self', l')"
    by (cases "agent_handle_message U tg self agent_name messages l") auto
  have rest: "\<forall>x\<in>set (intercepted U (k r) tg self' l'). \<not> is_Termination (class_of U (snd x))"
    using Intercept.prems h by auto
  have step: "self' = self
      \<and> filter is_SendMessage l'
           = filter is_SendMessage l
             @ (if messages = [] then []
                else content_delivery U (sys_chat_id self) (agent_name, get_content (last messages)))"
  proof (cases "messages = []")
    case True
    then show ?thesis using h by (simp add: agent_handle_message_Nil)
  next
    case False
    then have "\<not> is_Termination (class_of U (get_content (last messages)))"
      using Intercept.prems h by simp
    then show ?thesis
      using agent_handle_message_step [OF False, of U tg self agent_name l] h False by simp
  qed
  have ih: "fst (snd (a_initiate_chat U (k r) tg self l')) = self
     \<and> filter is_SendMessage (snd (snd (a_initiate_chat U (k r) tg self l')))
         = filter is_SendMessage l'
           @ concat (map (content_delivery U (sys_chat_id self)) (intercepted U (k r) tg self l'))"
    using Intercept.IH [OF rangeI, of r l'] rest step by simp
  show ?case using h step ih by simp
qed

section \<open>Facts about the handlers\<close>

lemma registry_ok_SessionManager: "registry_ok SessionManager"
  by (simp add: registry_ok_def SessionManager_def)

lemma registry_ok_get_session: "registry_ok w \<Longrightarrow> registry_ok (snd (get_session chat w))"
  by (auto simp: registry_ok_def get_session_def Session_def less_Suc_eq
        split: option.splits if_splits)

lemma registry_ok_clear_session: "registry_ok w \<Longrightarrow> registry_ok (clear_session chat w)"
  by (auto simp: registry_ok_def clear_session_def split: if_splits)

lemma telegram_only_None: "telegram_only (\<lambda>l. None)"
  by (simp add: telegram_only_def)

lemma send_message_telegram_only:
  assumes "telegram_only tg"
  shows "\<exists>sent E. send_message U tg chat text role l
                    = (Inr sent, l @ SendMessage chat text role # E)"
  using assms
  by (auto simp: telegram_only_def send_message_def bot_send_message_def Let_def
        split: option.splits)

lemma agent_handle_message_extends:
  "\<exists>r self' E. agent_handle_message U tg self agent_name messages l = (r, self', l @ E)"
proof (cases "messages = []")
  case True
  then show ?thesis by (simp add: agent_handle_message_Nil)
next
  case False
  show ?thesis
  proof (cases "get_content (last messages)")
    case (NoStrip type_name)
    then show ?thesis using False by (simp add: agent_handle_message_None)
  next
    case (Str raw)
    show ?thesis
    proof (cases "classify U raw")
      case Service
      then show ?thesis
        using False Str by (simp add: agent_handle_message_Service)
    next
      case (Termination p)
      show ?thesis
        using agent_handle_message_Termination_log [OF False Str Termination, of tg self agent_name l]
        by metis
    next
      case (Content p)
      show ?thesis
        using agent_handle_message_Content_log [OF False Str Content, of tg self agent_name l]
        by metis
    qed
  qed
qed

lemma a_initiate_chat_extends:
  "\<exists>r self' E. a_initiate_chat U chat tg self l = (r, self', l @ E)"
proof (induction chat arbitrary: self l)
  case Finished
  then show ?case by simp
next
  case (Failed e)
  then show ?case by simp
next
  case (Intercept agent_name messages k)
  obtain r self1 E1 where
    h: "agent_handle_message U tg self agent_name messages l = (r, self1, l @ E1)"
    using agent_handle_message_extends by blast
  obtain r2 self2 E2 where
    "a_initiate_chat U (k r) tg self1 (l @ E1) = (r2, self2, (l @ E1) @ E2)"
    using Intercept.IH [OF rangeI] by blast
  then show ?case using h by simp
qed

lemma run_task_extends:
  "\<exists>r self' E. run_task U tg self task chat l =
                 (r, self', l @ InitiateChat (sys_chat_id self) task # E)"
proof -
  obtain r self' E where
    "a_initiate_chat U chat tg self (l @ [InitiateChat (sys_chat_id self) task]) =
       (r, self', (l @ [InitiateChat (sys_chat_id self) task]) @ E)"
    using a_initiate_chat_extends by blast
  then show ?thesis by (cases r) (simp_all add: run_task_def)
qed

lemma get_session_events [simp]: "events (snd (get_session chat w)) = events w"
  by (simp add: get_session_def split: option.splits)

text \<open>
  What \<open>handle_message\<close> does with a task it accepts, over a transport that fails with a
  \<open>TelegramError\<close> only. It marks the session busy and sets its context; it asks for the
  two deliveries that confirm the task, which extend the log by \<open>E1\<close>; it runs the task
  on a new agent system, which extends the log by the event that the task is handed to
  the agents and by \<open>E3\<close>, and returns or raises \<open>r\<close>; the others run; it asks for the
  delivery of the notice that fits \<open>r\<close>; and it clears the busy flag of the session it
  started with.
\<close>

lemma handle_message_run:
  assumes tg: "telegram_only tg" and t: "strip U t \<noteq> []"
    and g: "get_session chat w = (a, w1)" and nb: "\<not> is_busy (heap w1 a)"
  shows "\<exists>E1 E3 E4 r sys.
           run_task U tg (AgentSystem (chat_id (heap w1 a))) (strip U t) conv (events w @ E1)
             = (r, sys, events w @ E1 @ InitiateChat (chat_id (heap w1 a)) (strip U t) # E3)
           \<and> handle_message U tg chat (Some t) conv others w =
               (Inr (),
                set_is_busy a False
                  ((others ((set_context a Bot EventLoop (set_is_busy a True w1))
                      \<lparr>events := events w @ E1
                                  @ InitiateChat (chat_id (heap w1 a)) (strip U t) # E3\<rparr>))
                     \<lparr>events := events
                        (others ((set_context a Bot EventLoop (set_is_busy a True w1))
                           \<lparr>events := events w @ E1
                                  @ InitiateChat (chat_id (heap w1 a)) (strip U t) # E3\<rparr>))
                        @ SendMessage chat (final_notice r) system_role # E4\<rparr>))"
proof -
  let ?w0 = "set_context a Bot EventLoop (set_is_busy a True w1)"
  let ?c = "chat_id (heap w1 a)"
  have ne: "t \<noteq> []" using t by auto
  have e0: "events ?w0 = events w"
    using g get_session_events [of chat w] by (simp add: set_context_def set_is_busy_def)
  have c0: "chat_id (heap ?w0 a) = ?c"
    and b0: "bot (heap ?w0 a) \<noteq> None" "loop (heap ?w0 a) \<noteq> None"
    by (simp_all add: set_context_def set_is_busy_def)
  obtain s1 E1 where
    1: "send_message U tg chat (strip U t) user_role (events w)
          = (Inr s1, events w @ SendMessage chat (strip U t) user_role # E1)"
    using send_message_telegram_only [OF tg] by blast
  let ?l1 = "events w @ SendMessage chat (strip U t) user_role # E1"
  obtain s2 E2 where
    2: "send_message U tg chat starting_text system_role ?l1
          = (Inr s2, ?l1 @ SendMessage chat starting_text system_role # E2)"
    using send_message_telegram_only [OF tg] by blast
  let ?E = "SendMessage chat (strip U t) user_role # E1
            @ SendMessage chat starting_text system_role # E2"
  have l2: "?l1 @ SendMessage chat starting_text system_role # E2 = events w @ ?E" by simp
  have sc: "sys_chat_id (AgentSystem ?c) = ?c"
    by (simp add: AgentSystem_def)
  obtain r sys E3 where
    "run_task U tg (AgentSystem ?c) (strip U t) conv (events w @ ?E) =
       (r, sys, (events w @ ?E) @ InitiateChat (sys_chat_id (AgentSystem ?c)) (strip U t) # E3)"
    using run_task_extends by blast
  then have 3:
    "run_task U tg (AgentSystem ?c) (strip U t) conv (events w @ ?E) =
       (r, sys, events w @ ?E @ InitiateChat ?c (strip U t) # E3)"
    by (simp only: sc append_assoc)
  let ?wm = "others (?w0\<lparr>events := events w @ ?E @ InitiateChat ?c (strip U t) # E3\<rparr>)"
  have run: "session_run_task U tg a (strip U t) conv others (?w0\<lparr>events := events w @ ?E\<rparr>)
               = (r, ?wm)"
    using 3 b0 c0 by (simp add: session_run_task_def Let_def set_context_def set_is_busy_def)
  have pre: "handle_message_try U tg chat a (strip U t) conv others w1 =
     and_then (session_run_task U tg a (strip U t) conv others)
       (\<lambda>(termination_detected, answer).
          and_then (on_events (send_message U tg chat
                      (if termination_detected then success_text else incomplete_text)
                      system_role))
            (\<lambda>sent w'. (Inr (), w')))
       (?w0\<lparr>events := events w @ ?E\<rparr>)"
    using 1 2 e0 unfolding handle_message_try_def l2 [symmetric]
    by (simp add: and_then_def on_events_def)
  have "\<exists>E4. handle_message U tg chat (Some t) conv others w =
       (Inr (), set_is_busy a False
          (?wm\<lparr>events := events ?wm @ SendMessage chat (final_notice r) system_role # E4\<rparr>))"
  proof (cases r)
    case (Inl e)
    have h: "handle_message_try U tg chat a (strip U t) conv others w1 = (Inl e, ?wm)"
      unfolding pre using run Inl by (simp add: and_then_def)
    obtain s5 E5 where
      "send_message U tg chat (error_prefix @ str_exn e @ error_suffix) system_role (events ?wm)
         = (Inr s5, events ?wm
                    @ SendMessage chat (error_prefix @ str_exn e @ error_suffix) system_role # E5)"
      using send_message_telegram_only [OF tg] by blast
    then have "handle_message U tg chat (Some t) conv others w =
       (Inr (), set_is_busy a False
          (?wm\<lparr>events := events ?wm @ SendMessage chat (final_notice r) system_role # E5\<rparr>))"
      using ne t g nb h Inl by (simp add: handle_message_def on_events_def Let_def)
    then show ?thesis by blast
  next
    case (Inr res)
    obtain td ans where res: "res = (td, ans)" by (cases res)
    obtain s4 E4 where
      s4: "send_message U tg chat (if td then success_text else incomplete_text) system_role
         (events ?wm)
           = (Inr s4, events ?wm
                @ SendMessage chat (if td then success_text else incomplete_text) system_role # E4)"
      using send_message_telegram_only [OF tg] by blast
    have h: "handle_message_try U tg chat a (strip U t) conv others w1 =
       (Inr (), ?wm\<lparr>events := events ?wm @ SendMessage chat (final_notice r) system_role # E4\<rparr>)"
      unfolding pre using run Inr res s4 by (simp add: and_then_def on_events_def)
    have "handle_message U tg chat (Some t) conv others w =
       (Inr (), set_is_busy a False
          (?wm\<lparr>events := events ?wm @ SendMessage chat (final_notice r) system_role # E4\<rparr>))"
      using ne t g nb h by (simp add: handle_message_def Let_def)
    then show ?thesis by blast
  qed
  with 3 show ?thesis by blast
qed

text \<open>The same with less detail: the log grows by \<open>L\<close>, then by \<open>E\<close>.\<close>

lemma handle_message_accepted:
  assumes tg: "telegram_only tg" and t: "strip U t \<noteq> []"
    and g: "get_session chat w = (a, w1)" and nb: "\<not> is_busy (heap w1 a)"
  shows "\<exists>L E. InitiateChat (chat_id (heap w1 a)) (strip U t) \<in> set L
           \<and> handle_message U tg chat (Some t) conv others w =
               (Inr (),
                set_is_busy a False
                  ((others ((set_context a Bot EventLoop (set_is_busy a True w1))
                              \<lparr>events := events w @ L\<rparr>))
                     \<lparr>events := events
                        (others ((set_context a Bot EventLoop (set_is_busy a True w1))
                                   \<lparr>events := events w @ L\<rparr>)) @ E\<rparr>))"
proof -
  obtain E1 E3 E4 r where
    h: "handle_message U tg chat (Some t) conv others w =
               (Inr (),
                set_is_busy a False
                  ((others ((set_context a Bot EventLoop (set_is_busy a True w1))
                      \<lparr>events := events w @ E1
                                  @ InitiateChat (chat_id (heap w1 a)) (strip U t) # E3\<rparr>))
                     \<lparr>events := events
                        (others ((set_context a Bot EventLoop (set_is_busy a True w1))
                           \<lparr>events := events w @ E1
                                  @ InitiateChat (chat_id (heap w1 a)) (strip U t) # E3\<rparr>))
                        @ SendMessage chat (final_notice r) system_role # E4\<rparr>))"
    using handle_message_run [OF assms, of conv others] by blast
  have "InitiateChat (chat_id (heap w1 a)) (strip U t)
          \<in> set (E1 @ InitiateChat (chat_id (heap w1 a)) (strip U t) # E3)"
    by simp
  with h show ?thesis by blast
qed

text \<open>Whatever the transport and the chat do, an accepted task ends with the flag cleared.\<close>

lemma handle_message_releases:
  assumes t: "strip U t \<noteq> []" and g: "get_session chat w = (a, w1)"
    and nb: "\<not> is_busy (heap w1 a)"
  shows "\<not> is_busy (heap (snd (handle_message U tg chat (Some t) conv others w)) a)"
proof -
  have ne: "t \<noteq> []" using t by auto
  show ?thesis
    using ne t g nb
    by (auto simp: handle_message_def set_is_busy_def Let_def split: prod.splits sum.splits)
qed

lemma handle_message_busy:
  assumes "sessions w chat = Some a" and "is_busy (heap w a)" and t: "strip U t \<noteq> []"
  shows "handle_message U tg chat (Some t) conv others w =
          ((case tg (events w @ [ReplyText chat wait_notice None]) of
              None \<Rightarrow> Inr ()
            | Some e \<Rightarrow> Inl e),
           w\<lparr>events := events w @ [ReplyText chat wait_notice None]\<rparr>)"
proof -
  have ne: "t \<noteq> []" using t by auto
  show ?thesis
    using assms ne
    by (simp add: handle_message_def get_session_def on_events_def reply_text_def Let_def
          split: option.splits)
qed

lemma registry_ok_busy_world: "registry_ok busy_world"
  by (simp add: registry_ok_def busy_world_def)

section \<open>The claims\<close>




text \<open>
  C2, as amended. Take a text whose trimmed form is not empty and does not hold the
  completion token once it is put in upper case. It is passed over as a Service message
  exactly when its trimmed form holds \<^verbatim>\<open>Next speaker:\<close> anywhere, or holds
  \<^verbatim>\<open>next speaker\<close> or \<^verbatim>\<open>##\<close> anywhere once it is put in lower case: the reply function
  then returns \<open>(False, None)\<close> and leaves the agent system and the log as they were.
  Every other such text is a Content message whose payload is the trimmed text: the
  reply function asks for one delivery, of the trimmed text under the label of the
  agent, leaves the agent system as it was and returns \<open>(False, None)\<close>, or raises what
  the delivery raises.
\<close>

theorem content_classified:
  assumes ne: "strip U text \<noteq> []"
    and nt: "\<not> contains (ascii ''TERMINATE'') (upper U (strip U text))"
    and m: "get_content m = Str text"
  shows "(agent_handle_message U tg self agent_name (messages @ [m]) l
            = (Inr (False, None), self, l))
           = (sublist (ascii ''Next speaker:'') (strip U text)
              \<or> sublist (ascii ''next speaker'') (lower U (strip U text))
              \<or> sublist (ascii ''##'') (lower U (strip U text)))
       \<and> (classify U text = Service)
           = (sublist (ascii ''Next speaker:'') (strip U text)
              \<or> sublist (ascii ''next speaker'') (lower U (strip U text))
              \<or> sublist (ascii ''##'') (lower U (strip U text)))
       \<and> (\<not> (sublist (ascii ''Next speaker:'') (strip U text)
               \<or> sublist (ascii ''next speaker'') (lower U (strip U text))
               \<or> sublist (ascii ''##'') (lower U (strip U text))) \<longrightarrow>
            classify U text = Content (strip U text)
            \<and> (\<exists>r bs. agent_handle_message U tg self agent_name (messages @ [m]) l =
                   (r, self,
                    l @ SendMessage (sys_chat_id self) (strip U text)
                          (role_display agent_name (strip U text)) # bs)
                 \<and> filter is_SendMessage bs = []
                 \<and> (case r of Inl e \<Rightarrow> \<not> is_TelegramError e | Inr x \<Rightarrow> x = (False, None))))"
proof -
  let ?sig = "sublist (ascii ''Next speaker:'') (strip U text)
            \<or> sublist (ascii ''next speaker'') (lower U (strip U text))
            \<or> sublist (ascii ''##'') (lower U (strip U text))"
  have g: "get_content (last (messages @ [m])) = Str text" using m by simp
  have n: "messages @ [m] \<noteq> []" by simp
  have s: "service_signature U (strip U text) = ?sig"
    by (simp add: service_signature_def contains_sublist)
  have c: "classify U text = (if ?sig then Service else Content (strip U text))"
    using ne nt s by (simp add: classify_def)
  have 2: "(classify U text = Service) = ?sig" using c by simp
  have 3: "\<exists>r bs. agent_handle_message U tg self agent_name (messages @ [m]) l =
                   (r, self,
                    l @ SendMessage (sys_chat_id self) (strip U text)
                          (role_display agent_name (strip U text)) # bs)
                 \<and> filter is_SendMessage bs = []
                 \<and> (case r of Inl e \<Rightarrow> \<not> is_TelegramError e | Inr x \<Rightarrow> x = (False, None))"
    if "\<not> ?sig"
  proof -
    have "classify U text = Content (strip U text)" using that c by simp
    then show ?thesis by (rule agent_handle_message_Content_log [OF n g])
  qed
  have 1: "(agent_handle_message U tg self agent_name (messages @ [m]) l
              = (Inr (False, None), self, l)) = ?sig"
  proof (cases ?sig)
    case True
    then have "classify U text = Service" using c by simp
    then show ?thesis using agent_handle_message_Service [OF n g] True by simp
  next
    case False
    then show ?thesis using 3 by auto
  qed
  have 4: "\<not> ?sig \<longrightarrow> classify U text = Content (strip U text)" using c by simp
  show ?thesis using 1 2 3 4 by blast
qed

text \<open>
  The claim as it was stated fails: the signatures of the code are not turn-announcement
  lines and pure routing markers, but any text that holds one of three strings. An
  answer with a heading, \<^verbatim>\<open>## Result: 2 + 2 = 4\<close>, has no line that begins with
  \<^verbatim>\<open>Next speaker:\<close> and is more than the marks \<^verbatim>\<open>#\<close>; it holds no completion token; and
  it is passed over: nothing is forwarded to the sink. So is a question that speaks of
  the next speaker.
\<close>

theorem content_classified_counterexample:
  "strip ascii_tables (ascii ''## Result: 2 + 2 = 4'') \<noteq> []
   \<and> \<not> contains (ascii ''TERMINATE'')
         (upper ascii_tables (strip ascii_tables (ascii ''## Result: 2 + 2 = 4'')))
   \<and> \<not> spec_signature ascii_tables (ascii ''## Result: 2 + 2 = 4'')
   \<and> classify ascii_tables (ascii ''## Result: 2 + 2 = 4'') = Service
   \<and> agent_handle_message ascii_tables (\<lambda>l. None) (AgentSystem 1) (ascii ''analyst'')
        [msg ''## Result: 2 + 2 = 4''] []
       = (Inr (False, None), AgentSystem 1, [])
   \<and> \<not> spec_signature ascii_tables (ascii ''Who is the next speaker at the meeting?'')
   \<and> classify ascii_tables (ascii ''Who is the next speaker at the meeting?'') = Service
   \<and> agent_handle_message ascii_tables (\<lambda>l. None) (AgentSystem 1) (ascii ''analyst'')
        [msg ''Who is the next speaker at the meeting?''] []
       = (Inr (False, None), AgentSystem 1, [])"
  by code_simp

theorem content_classified_witness:
  "strip ascii_tables (ascii '' The answer is 4. '') \<noteq> []
   \<and> \<not> contains (ascii ''TERMINATE'')
         (upper ascii_tables (strip ascii_tables (ascii '' The answer is 4. '')))
   \<and> get_content (msg '' The answer is 4. '') = Str (ascii '' The answer is 4. '')
   \<and> classify ascii_tables (ascii '' The answer is 4. '') = Content (ascii ''The answer is 4.'')
   \<and> filter is_SendMessage
        (snd (snd (agent_handle_message ascii_tables (\<lambda>l. None) (AgentSystem 1) (ascii ''analyst'')
                     ([] @ [msg '' The answer is 4. '']) [])))
       = [SendMessage 1 (ascii ''The answer is 4.'') ([0x1F9E0] @ ascii '' Analyst'')]
   \<and> strip ascii_tables (ascii ''Next speaker: coder'') \<noteq> []
   \<and> \<not> contains (ascii ''TERMINATE'')
         (upper ascii_tables (strip ascii_tables (ascii ''Next speaker: coder'')))
   \<and> get_content (msg ''Next speaker: coder'') = Str (ascii ''Next speaker: coder'')
   \<and> sublist (ascii ''Next speaker:'') (strip ascii_tables (ascii ''Next speaker: coder''))
   \<and> classify ascii_tables (ascii ''Next speaker: coder'') = Service
   \<and> agent_handle_message ascii_tables (\<lambda>l. None) (AgentSystem 1) (ascii ''analyst'')
        ([] @ [msg ''Next speaker: coder'']) []
       = (Inr (False, None), AgentSystem 1, [])"
proof -
  let ?U = ascii_tables
  let ?a = "ascii '' The answer is 4. ''"
  let ?n = "ascii ''Next speaker: coder''"
  have h1: "strip ?U ?a \<noteq> []"
    and h2: "\<not> contains (ascii ''TERMINATE'') (upper ?U (strip ?U ?a))"
    and h4: "strip ?U ?n \<noteq> []"
    and h5: "\<not> contains (ascii ''TERMINATE'') (upper ?U (strip ?U ?n))"
    and ca: "classify ?U ?a = Content (ascii ''The answer is 4.'')"
    and sa: "strip ?U ?a = ascii ''The answer is 4.''"
    and ra: "role_display (ascii ''analyst'') (ascii ''The answer is 4.'')
               = [0x1F9E0] @ ascii '' Analyst''"
    and sc: "sys_chat_id (AgentSystem 1) = 1"
    by code_simp+
  have sn: "sublist (ascii ''Next speaker:'') (strip ?U ?n)"
  proof -
    have "contains (ascii ''Next speaker:'') (strip ?U ?n)" by code_simp
    then show ?thesis by (simp add: contains_sublist)
  qed
  have h3: "get_content (msg '' The answer is 4. '') = Str ?a"
    and h6: "get_content (msg ''Next speaker: coder'') = Str ?n"
    by (simp_all add: get_content_def msg_def)
  note a = content_classified [OF h1 h2 h3, of "\<lambda>l. None" "AgentSystem 1" "ascii ''analyst''"
             "[]" "[]"]
  note b = content_classified [OF h4 h5 h6, of "\<lambda>l. None" "AgentSystem 1" "ascii ''analyst''"
             "[]" "[]"]
  have na: "\<not> (sublist (ascii ''Next speaker:'') (strip ?U ?a)
               \<or> sublist (ascii ''next speaker'') (lower ?U (strip ?U ?a))
               \<or> sublist (ascii ''##'') (lower ?U (strip ?U ?a)))"
    using a [THEN conjunct2, THEN conjunct1] ca by simp
  from a [THEN conjunct2, THEN conjunct2] na obtain r bs where
    "agent_handle_message ?U (\<lambda>l. None) (AgentSystem 1) (ascii ''analyst'')
       ([] @ [msg '' The answer is 4. '']) [] =
         (r, AgentSystem 1,
          [] @ SendMessage (sys_chat_id (AgentSystem 1)) (strip ?U ?a)
                 (role_display (ascii ''analyst'') (strip ?U ?a)) # bs)"
    and "filter is_SendMessage bs = []"
    by blast
  then have da: "filter is_SendMessage
        (snd (snd (agent_handle_message ?U (\<lambda>l. None) (AgentSystem 1) (ascii ''analyst'')
                     ([] @ [msg '' The answer is 4. '']) [])))
       = [SendMessage 1 (ascii ''The answer is 4.'') ([0x1F9E0] @ ascii '' Analyst'')]"
    by (simp add: sa ra sc)
  from b [THEN conjunct2, THEN conjunct1] sn have cn: "classify ?U ?n = Service" by blast
  from b [THEN conjunct1] sn
  have hn: "agent_handle_message ?U (\<lambda>l. None) (AgentSystem 1) (ascii ''analyst'')
        ([] @ [msg ''Next speaker: coder'']) [] = (Inr (False, None), AgentSystem 1, [])"
    by blast
  show ?thesis
    using h1 h2 h3 ca da h4 h5 h6 sn cn hn by (intro conjI)
qed

text \<open>
  C3, as amended. The class of a message and its payload are a function of its text
  alone. Whatever the state of the agent system, the agent, the messages before, the
  log and the transport, a call of the reply function on a message with the text shows
  the sink the class and the payload that \<open>classify\<close> gives for the text: no delivery for
  a Service message, a delivery of the payload under the label of the final answer for
  a Termination (of the default final message when the payload is empty), a delivery of
  the payload under another label for a Content message. So two calls on the same text
  show the same class and payload. Classifying is not apart from handling, and handling
  has effects: only a Service message is handled with none; a Termination sets
  \<open>termination_detected\<close>, and a Termination or a Content message adds one delivery to
  the log, each time it is handled. A message whose content is no string, \<^verbatim>\<open>None\<close> for
  one, is not classified: the reply function raises an \<open>AttributeError\<close>.
\<close>

theorem classification_by_text:
  "case get_content m of
     NoStrip type_name \<Rightarrow>
       agent_handle_message U tg self agent_name (messages @ [m]) l
         = (Inl (AttributeError (has_no_strip type_name)), self, l)
   | Str text \<Rightarrow>
       observed_class l (agent_handle_message U tg self agent_name (messages @ [m]) l)
           = delivered_class (classify U text)
       \<and> (classify U text = Service) =
           (agent_handle_message U tg self agent_name (messages @ [m]) l
              = (Inr (False, None), self, l))
       \<and> (classify U text \<noteq> Service \<longrightarrow>
            length (filter is_SendMessage
                      (snd (snd (agent_handle_message U tg self agent_name (messages @ [m]) l))))
              = Suc (length (filter is_SendMessage l)))
       \<and> (is_Termination (Some (classify U text)) \<longrightarrow>
            termination_detected
              (fst (snd (agent_handle_message U tg self agent_name (messages @ [m]) l))))"
proof (cases "get_content m")
  case (NoStrip type_name)
  then show ?thesis by (simp add: agent_handle_message_None)
next
  case (Str raw)
  let ?run = "agent_handle_message U tg self agent_name (messages @ [m]) l"
  have g: "get_content (last (messages @ [m])) = Str raw" using Str by simp
  have n: "messages @ [m] \<noteq> []" by simp
  show ?thesis
  proof (cases "classify U raw")
    case Service
    then show ?thesis
      using agent_handle_message_Service [OF n g Service, of tg self agent_name l] Str
      by (simp add: observed_class_def)
  next
    case (Termination p)
    obtain r bs where run: "?run =
           (r,
            (case r of
               Inl e \<Rightarrow> self\<lparr>termination_detected := True\<rparr>
             | Inr x \<Rightarrow> self\<lparr>termination_detected := True,
                             last_message := (if p \<noteq> [] then p else default_answer)\<rparr>),
            l @ SendMessage (sys_chat_id self) (if p \<noteq> [] then p else default_answer)
                  final_answer_role # bs)"
      and f: "filter is_SendMessage bs = []"
      using agent_handle_message_Termination_log [OF n g Termination] by blast
    show ?thesis
      unfolding run using f Termination Str
      by (cases r) (simp_all add: observed_class_def)
  next
    case (Content p)
    obtain r bs where run: "?run =
           (r, self, l @ SendMessage (sys_chat_id self) p (role_display agent_name p) # bs)"
      and f: "filter is_SendMessage bs = []"
      using agent_handle_message_Content_log [OF n g Content] by blast
    show ?thesis
      unfolding run using f Content Str role_display_not_final [of agent_name p]
      by (simp add: observed_class_def)
  qed
qed

text \<open>
  The claim as it was stated fails: the code classifies a text nowhere but in the reply
  function, and there the class is acted upon as it is found. Handling the text
  \<open>done TERMINATE\<close> sets \<open>termination_detected\<close>, which was not set, records the last
  message and sends to the chat; handling it once more in the state the first call has
  left sends once more.
\<close>

theorem classification_by_text_counterexample:
  "classify ascii_tables (ascii ''done TERMINATE'') = Termination (ascii ''done'')
   \<and> \<not> termination_detected (AgentSystem 1)
   \<and> agent_handle_message ascii_tables (\<lambda>l. None) (AgentSystem 1) (ascii ''analyst'')
        [msg ''done TERMINATE''] []
       = (Inr (True, None),
          \<lparr>sys_chat_id = 1, termination_detected = True, last_message = ascii ''done''\<rparr>,
          [SendMessage 1 (ascii ''done'') final_answer_role,
           BotSendMessage 1 (ascii ''<b>'' @ final_answer_role @ ascii ''</b>'' @ [10, 10]
                             @ ascii ''done'') (Some HTML)])
   \<and> filter is_SendMessage
       (snd (snd (agent_handle_message ascii_tables (\<lambda>l. None)
          \<lparr>sys_chat_id = 1, termination_detected = True, last_message = ascii ''done''\<rparr>
          (ascii ''analyst'') [msg ''done TERMINATE'']
          [SendMessage 1 (ascii ''done'') final_answer_role,
           BotSendMessage 1 (ascii ''<b>'' @ final_answer_role @ ascii ''</b>'' @ [10, 10]
                             @ ascii ''done'') (Some HTML)])))
       = [SendMessage 1 (ascii ''done'') final_answer_role,
          SendMessage 1 (ascii ''done'') final_answer_role]"
  by code_simp

text \<open>
  Two calls on the same text, made in two states, for two agents, with two logs and
  over two transports, the second of which fails: both show the same class and payload.
  And a call on a message whose content is \<^verbatim>\<open>None\<close>.
\<close>

theorem classification_by_text_witness:
  "get_content (msg ''done TERMINATE'') = Str (ascii ''done TERMINATE'')
   \<and> classify ascii_tables (ascii ''done TERMINATE'') = Termination (ascii ''done'')
   \<and> observed_class []
       (agent_handle_message ascii_tables (\<lambda>l. None) (AgentSystem 1) (ascii ''analyst'')
          ([] @ [msg ''done TERMINATE'']) [])
       = Termination (ascii ''done'')
   \<and> observed_class [InitiateChat 2 (ascii ''task'')]
       (agent_handle_message ascii_tables (\<lambda>l. Some (TelegramError (ascii ''timed out'')))
          \<lparr>sys_chat_id = 2, termination_detected = True, last_message = ascii ''before''\<rparr>
          (ascii ''coder'') ([msg ''what is 2+2''] @ [msg ''done TERMINATE''])
          [InitiateChat 2 (ascii ''task'')])
       = Termination (ascii ''done'')
   \<and> termination_detected
       (fst (snd (agent_handle_message ascii_tables (\<lambda>l. None) (AgentSystem 1) (ascii ''analyst'')
                    ([] @ [msg ''done TERMINATE'']) [])))
   \<and> agent_handle_message ascii_tables (\<lambda>l. None) (AgentSystem 1) (ascii ''analyst'')
         ([] @ [[ascii ''content'' \<mapsto> PyNone]]) []
       = (Inl (AttributeError (has_no_strip (ascii ''NoneType''))), AgentSystem 1, [])"
proof -
  let ?U = ascii_tables
  have h: "get_content (msg ''done TERMINATE'') = Str (ascii ''done TERMINATE'')"
    by (simp add: get_content_def msg_def)
  have c: "classify ?U (ascii ''done TERMINATE'') = Termination (ascii ''done'')"
    by code_simp
  have d: "delivered_class (classify ?U (ascii ''done TERMINATE'')) = Termination (ascii ''done'')"
    unfolding c by (simp add: ascii_def)
  have t: "is_Termination (Some (classify ?U (ascii ''done TERMINATE'')))"
    unfolding c by simp
  have a: "observed_class []
       (agent_handle_message ?U (\<lambda>l. None) (AgentSystem 1) (ascii ''analyst'')
          ([] @ [msg ''done TERMINATE'']) [])
       = delivered_class (classify ?U (ascii ''done TERMINATE''))"
    and a3: "is_Termination (Some (classify ?U (ascii ''done TERMINATE''))) \<longrightarrow>
       termination_detected
         (fst (snd (agent_handle_message ?U (\<lambda>l. None) (AgentSystem 1) (ascii ''analyst'')
                      ([] @ [msg ''done TERMINATE'']) [])))"
    using classification_by_text [where m = "msg ''done TERMINATE''" and U = ?U
            and tg = "\<lambda>l. None" and self = "AgentSystem 1" and agent_name = "ascii ''analyst''"
            and messages = "[]" and l = "[]"]
    unfolding h by simp_all
  have b: "observed_class [InitiateChat 2 (ascii ''task'')]
       (agent_handle_message ?U (\<lambda>l. Some (TelegramError (ascii ''timed out'')))
          \<lparr>sys_chat_id = 2, termination_detected = True, last_message = ascii ''before''\<rparr>
          (ascii ''coder'') ([msg ''what is 2+2''] @ [msg ''done TERMINATE''])
          [InitiateChat 2 (ascii ''task'')])
       = delivered_class (classify ?U (ascii ''done TERMINATE''))"
    using classification_by_text [where m = "msg ''done TERMINATE''" and U = ?U
            and tg = "\<lambda>l. Some (TelegramError (ascii ''timed out''))"
            and self = "\<lparr>sys_chat_id = 2, termination_detected = True,
                          last_message = ascii ''before''\<rparr>"
            and agent_name = "ascii ''coder''"
            and messages = "[msg ''what is 2+2'']" and l = "[InitiateChat 2 (ascii ''task'')]"]
    unfolding h by simp
  from a d have 1: "observed_class []
       (agent_handle_message ?U (\<lambda>l. None) (AgentSystem 1) (ascii ''analyst'')
          ([] @ [msg ''done TERMINATE'']) [])
       = Termination (ascii ''done'')"
    by (simp only:)
  from b d have 2: "observed_class [InitiateChat 2 (ascii ''task'')]
       (agent_handle_message ?U (\<lambda>l. Some (TelegramError (ascii ''timed out'')))
          \<lparr>sys_chat_id = 2, termination_detected = True, last_message = ascii ''before''\<rparr>
          (ascii ''coder'') ([msg ''what is 2+2''] @ [msg ''done TERMINATE''])
          [InitiateChat 2 (ascii ''task'')])
       = Termination (ascii ''done'')"
    by (simp only:)
  from a3 t have 3: "termination_detected
       (fst (snd (agent_handle_message ?U (\<lambda>l. None) (AgentSystem 1) (ascii ''analyst'')
                    ([] @ [msg ''done TERMINATE'']) [])))"
    by blast
  have n: "get_content [ascii ''content'' \<mapsto> PyNone] = NoStrip (ascii ''NoneType'')"
    by (simp add: get_content_def PyNone_def)
  have 4: "agent_handle_message ?U (\<lambda>l. None) (AgentSystem 1) (ascii ''analyst'')
         ([] @ [[ascii ''content'' \<mapsto> PyNone]]) []
       = (Inl (AttributeError (has_no_strip (ascii ''NoneType''))), AgentSystem 1, [])"
    using classification_by_text [where m = "[ascii ''content'' \<mapsto> PyNone]" and U = ?U
            and tg = "\<lambda>l. None" and self = "AgentSystem 1" and agent_name = "ascii ''analyst''"
            and messages = "[]" and l = "[]"]
    unfolding n by simp
  show ?thesis using h c 1 2 3 4 by (intro conjI)
qed

text \<open>
  C5. If a task is submitted for a chat whose session is busy, \<open>handle_message\<close> answers
  with the wait notice and returns: the busy test of line 82 is the acquisition, and it
  fails. The world is left as it was but for the wait notice in the log: the registry,
  every session with its busy flag and its context, and the allocation are unchanged,
  and the task is not handed to the agents, whatever the chat would have been.
\<close>

theorem busy_rejected:
  assumes "sessions w chat = Some a" and "is_busy (heap w a)" and "strip U t \<noteq> []"
  shows "case handle_message U tg chat (Some t) conv others w of
           (r, w') \<Rightarrow>
             events w' = events w @ [ReplyText chat wait_notice None]
             \<and> sessions w' = sessions w \<and> heap w' = heap w \<and> next_addr w' = next_addr w
             \<and> r = (case tg (events w') of None \<Rightarrow> Inr () | Some e \<Rightarrow> Inl e)"
  using handle_message_busy [OF assms] by simp

theorem busy_rejected_witness:
  "sessions busy_world 7 = Some 0 \<and> is_busy (heap busy_world 0)
   \<and> strip ascii_tables (ascii ''second task'') \<noteq> []
   \<and> events (snd (handle_message ascii_tables (\<lambda>l. None) 7 (Some (ascii ''second task''))
                     answer_chat (\<lambda>w. w) busy_world))
       = [InitiateChat 7 (ascii ''first task''), ReplyText 7 wait_notice None]
   \<and> fst (handle_message ascii_tables (\<lambda>l. None) 7 (Some (ascii ''second task'')) answer_chat
           (\<lambda>w. w) busy_world) = Inr ()
   \<and> is_busy (heap (snd (handle_message ascii_tables (\<lambda>l. None) 7 (Some (ascii ''second task''))
                           answer_chat (\<lambda>w. w) busy_world)) 0)
   \<and> filter (\<lambda>e. \<not> is_delivery e)
       (events (snd (handle_message ascii_tables (\<lambda>l. None) 7 (Some (ascii ''what is 2+2''))
          answer_chat
          (\<lambda>w. snd (handle_message ascii_tables (\<lambda>l. None) 7 (Some (ascii ''second task''))
                      answer_chat (\<lambda>w. w) w))
          SessionManager)))
       = [InitiateChat 7 (ascii ''what is 2+2''), ReplyText 7 wait_notice None]"
proof -
  have h1: "sessions busy_world 7 = Some 0" and h2: "is_busy (heap busy_world 0)"
    by (simp_all add: busy_world_def)
  have h3: "strip ascii_tables (ascii ''second task'') \<noteq> []" by code_simp
  have e: "events busy_world = [InitiateChat 7 (ascii ''first task'')]"
    and b: "heap busy_world = (\<lambda>a. \<lparr>chat_id = 7, is_busy = (a = 0), bot = Some Bot,
                                    loop = Some EventLoop\<rparr>)"
    by (simp_all add: busy_world_def)
  have s: "filter (\<lambda>e. \<not> is_delivery e)
       (events (snd (handle_message ascii_tables (\<lambda>l. None) 7 (Some (ascii ''what is 2+2''))
          answer_chat
          (\<lambda>w. snd (handle_message ascii_tables (\<lambda>l. None) 7 (Some (ascii ''second task''))
                      answer_chat (\<lambda>w. w) w))
          SessionManager)))
       = [InitiateChat 7 (ascii ''what is 2+2''), ReplyText 7 wait_notice None]"
    by code_simp
  show ?thesis
    using busy_rejected [OF h1 h2 h3, of "\<lambda>l. None" answer_chat "\<lambda>w. w"] h1 h2 h3 s
    by (auto simp: e b split: prod.splits)
qed

text \<open>
  C6. A task that \<open>handle_message\<close> accepts ends with the busy flag of its session
  cleared, whatever the chat does, whatever the transport answers and whatever other
  handlers do in the meantime. Over a transport that fails with a \<open>TelegramError\<close> only
  the task is run: the handler sets the flag, hands the task to the agents on a new
  agent system, and the others run in a world in which the flag of the session is set;
  the chat ends with the completion token, runs out of rounds or raises, and \<open>r\<close> is
  what \<open>run_task\<close> returns or raises; the user is sent the notice that fits \<open>r\<close>; and the
  last thing done is the assignment that clears the flag. An exception \<open>e\<close> of the chat
  leaves \<open>run_task\<close> as that exception, \<open>r = Inl e\<close>: no pair is returned, and the notice
  is the one of an error, with the text of \<open>e\<close>.
\<close>

theorem busy_released:
  assumes t: "strip U t \<noteq> []" and g: "get_session chat w = (a, w1)"
    and nb: "\<not> is_busy (heap w1 a)"
  shows "\<not> is_busy (heap (snd (handle_message U tg chat (Some t) conv others w)) a)
       \<and> (telegram_only tg \<longrightarrow>
            (\<exists>E1 E3 E4 r sys wm.
               run_task U tg (AgentSystem (chat_id (heap w1 a))) (strip U t) conv (events w @ E1)
                 = (r, sys, events w @ E1 @ InitiateChat (chat_id (heap w1 a)) (strip U t) # E3)
               \<and> wm = (set_context a Bot EventLoop (set_is_busy a True w1))
                        \<lparr>events := events w @ E1
                                    @ InitiateChat (chat_id (heap w1 a)) (strip U t) # E3\<rparr>
               \<and> is_busy (heap wm a)
               \<and> handle_message U tg chat (Some t) conv others w =
                   (Inr (),
                    set_is_busy a False
                      ((others wm)\<lparr>events := events (others wm)
                                     @ SendMessage chat (final_notice r) system_role # E4\<rparr>))
               \<and> r = (case fst (a_initiate_chat U conv tg (AgentSystem (chat_id (heap w1 a)))
                                  (events w @ E1
                                   @ [InitiateChat (chat_id (heap w1 a)) (strip U t)])) of
                        Some e \<Rightarrow> Inl e
                      | None \<Rightarrow> Inr (termination_detected sys, last_message sys))))"
proof
  show "\<not> is_busy (heap (snd (handle_message U tg chat (Some t) conv others w)) a)"
    using t g nb by (rule handle_message_releases)
  show "telegram_only tg \<longrightarrow>
            (\<exists>E1 E3 E4 r sys wm.
               run_task U tg (AgentSystem (chat_id (heap w1 a))) (strip U t) conv (events w @ E1)
                 = (r, sys, events w @ E1 @ InitiateChat (chat_id (heap w1 a)) (strip U t) # E3)
               \<and> wm = (set_context a Bot EventLoop (set_is_busy a True w1))
                        \<lparr>events := events w @ E1
                                    @ InitiateChat (chat_id (heap w1 a)) (strip U t) # E3\<rparr>
               \<and> is_busy (heap wm a)
               \<and> handle_message U tg chat (Some t) conv others w =
                   (Inr (),
                    set_is_busy a False
                      ((others wm)\<lparr>events := events (others wm)
                                     @ SendMessage chat (final_notice r) system_role # E4\<rparr>))
               \<and> r = (case fst (a_initiate_chat U conv tg (AgentSystem (chat_id (heap w1 a)))
                                  (events w @ E1
                                   @ [InitiateChat (chat_id (heap w1 a)) (strip U t)])) of
                        Some e \<Rightarrow> Inl e
                      | None \<Rightarrow> Inr (termination_detected sys, last_message sys)))"
  proof
    assume tg: "telegram_only tg"
    let ?c = "chat_id (heap w1 a)"
    obtain E1 E3 E4 r sys where
      run: "run_task U tg (AgentSystem ?c) (strip U t) conv (events w @ E1)
              = (r, sys, events w @ E1 @ InitiateChat ?c (strip U t) # E3)"
      and h: "handle_message U tg chat (Some t) conv others w =
               (Inr (),
                set_is_busy a False
                  ((others ((set_context a Bot EventLoop (set_is_busy a True w1))
                      \<lparr>events := events w @ E1 @ InitiateChat ?c (strip U t) # E3\<rparr>))
                     \<lparr>events := events
                        (others ((set_context a Bot EventLoop (set_is_busy a True w1))
                           \<lparr>events := events w @ E1 @ InitiateChat ?c (strip U t) # E3\<rparr>))
                        @ SendMessage chat (final_notice r) system_role # E4\<rparr>))"
      using handle_message_run [OF tg t g nb, of conv others] by blast
    let ?wm = "(set_context a Bot EventLoop (set_is_busy a True w1))
                 \<lparr>events := events w @ E1 @ InitiateChat ?c (strip U t) # E3\<rparr>"
    have b: "is_busy (heap ?wm a)" by (simp add: set_context_def set_is_busy_def)
    have sc: "sys_chat_id (AgentSystem ?c) = ?c" by (simp add: AgentSystem_def)
    have r: "r = (case fst (a_initiate_chat U conv tg (AgentSystem ?c)
                              (events w @ E1 @ [InitiateChat ?c (strip U t)])) of
                    Some e \<Rightarrow> Inl e
                  | None \<Rightarrow> Inr (termination_detected sys, last_message sys))"
      using run
      by (cases "a_initiate_chat U conv tg (AgentSystem ?c)
                   (events w @ E1 @ [InitiateChat ?c (strip U t)])")
         (auto simp: run_task_def sc split: option.splits)
    show "\<exists>E1 E3 E4 r sys wm.
               run_task U tg (AgentSystem ?c) (strip U t) conv (events w @ E1)
                 = (r, sys, events w @ E1 @ InitiateChat ?c (strip U t) # E3)
               \<and> wm = (set_context a Bot EventLoop (set_is_busy a True w1))
                        \<lparr>events := events w @ E1 @ InitiateChat ?c (strip U t) # E3\<rparr>
               \<and> is_busy (heap wm a)
               \<and> handle_message U tg chat (Some t) conv others w =
                   (Inr (),
                    set_is_busy a False
                      ((others wm)\<lparr>events := events (others wm)
                                     @ SendMessage chat (final_notice r) system_role # E4\<rparr>))
               \<and> r = (case fst (a_initiate_chat U conv tg (AgentSystem ?c)
                                  (events w @ E1 @ [InitiateChat ?c (strip U t)])) of
                        Some e \<Rightarrow> Inl e
                      | None \<Rightarrow> Inr (termination_detected sys, last_message sys))"
      using run b h r by blast
  qed
qed

text \<open>
  Three tasks accepted from the empty registry: one that ends with the completion token,
  one that runs out of rounds, one whose chat raises. Each ends with the flag cleared.
  In the run of the first the others note the flag they see, in the allocation counter:
  it is set. The third ends with the notice of the error in the log, and no notice of
  completion.
\<close>

theorem busy_released_witness:
  "strip ascii_tables (ascii ''what is 2+2'') \<noteq> []
   \<and> get_session 7 SessionManager = (0, snd (get_session 7 SessionManager))
   \<and> \<not> is_busy (heap (snd (get_session 7 SessionManager)) 0)
   \<and> telegram_only (\<lambda>l. None)
   \<and> \<not> is_busy (heap (snd (handle_message ascii_tables (\<lambda>l. None) 7
                             (Some (ascii ''what is 2+2'')) answer_chat (\<lambda>w. w) SessionManager)) 0)
   \<and> \<not> is_busy (heap (snd (handle_message ascii_tables (\<lambda>l. None) 7
                             (Some (ascii ''what is 2+2'')) noise_chat (\<lambda>w. w) SessionManager)) 0)
   \<and> \<not> is_busy (heap (snd (handle_message ascii_tables (\<lambda>l. None) 7
                             (Some (ascii ''what is 2+2'')) failing_chat (\<lambda>w. w) SessionManager)) 0)
   \<and> fst (handle_message ascii_tables (\<lambda>l. None) 7 (Some (ascii ''what is 2+2'')) failing_chat
            (\<lambda>w. w) SessionManager) = Inr ()
   \<and> next_addr (snd (handle_message ascii_tables (\<lambda>l. None) 7 (Some (ascii ''what is 2+2''))
                       answer_chat
                       (\<lambda>w. w\<lparr>next_addr := (if is_busy (heap w 0) then 100 else 200)\<rparr>)
                       SessionManager)) = 100
   \<and> fst (run_task ascii_tables (\<lambda>l. None) (AgentSystem 7) (ascii ''what is 2+2'')
            failing_chat [])
       = Inl (OtherException (ascii ''model unreachable''))
   \<and> filter is_SendMessage
       (events (snd (handle_message ascii_tables (\<lambda>l. None) 7 (Some (ascii ''what is 2+2''))
                       failing_chat (\<lambda>w. w) SessionManager)))
       = [SendMessage 7 (ascii ''what is 2+2'') user_role,
          SendMessage 7 starting_text system_role,
          SendMessage 7 (ascii ''what is 2+2'') ([0x1F916] @ ascii '' Manager''),
          SendMessage 7 (error_prefix @ ascii ''model unreachable'' @ error_suffix) system_role]"
proof -
  let ?U = ascii_tables
  have h1: "strip ?U (ascii ''what is 2+2'') \<noteq> []" by code_simp
  have g: "get_session 7 SessionManager = (0, snd (get_session 7 SessionManager))"
    and h2: "\<not> is_busy (heap (snd (get_session 7 SessionManager)) 0)"
    by (simp_all add: get_session_def SessionManager_def Session_def)
  have p: "next_addr (snd (handle_message ?U (\<lambda>l. None) 7 (Some (ascii ''what is 2+2''))
                       answer_chat
                       (\<lambda>w. w\<lparr>next_addr := (if is_busy (heap w 0) then 100 else 200)\<rparr>)
                       SessionManager)) = 100"
    and r: "fst (run_task ?U (\<lambda>l. None) (AgentSystem 7) (ascii ''what is 2+2'') failing_chat [])
       = Inl (OtherException (ascii ''model unreachable''))"
    and e: "filter is_SendMessage
       (events (snd (handle_message ?U (\<lambda>l. None) 7 (Some (ascii ''what is 2+2''))
                       failing_chat (\<lambda>w. w) SessionManager)))
       = [SendMessage 7 (ascii ''what is 2+2'') user_role,
          SendMessage 7 starting_text system_role,
          SendMessage 7 (ascii ''what is 2+2'') ([0x1F916] @ ascii '' Manager''),
          SendMessage 7 (error_prefix @ ascii ''model unreachable'' @ error_suffix) system_role]"
    by code_simp+
  note a = busy_released [OF h1 g h2, of "\<lambda>l. None" answer_chat "\<lambda>w. w", THEN conjunct1]
  note b = busy_released [OF h1 g h2, of "\<lambda>l. None" noise_chat "\<lambda>w. w", THEN conjunct1]
  note c = busy_released [OF h1 g h2, of "\<lambda>l. None" failing_chat "\<lambda>w. w", THEN conjunct1]
  have d: "fst (handle_message ?U (\<lambda>l. None) 7 (Some (ascii ''what is 2+2'')) failing_chat
                 (\<lambda>w. w) SessionManager) = Inr ()"
    using busy_released [OF h1 g h2, of "\<lambda>l. None" failing_chat "\<lambda>w. w", THEN conjunct2,
            rule_format, OF telegram_only_None]
    by auto
  show ?thesis
    using h1 g h2 telegram_only_None a b c d p r e by (intro conjI)
qed

text \<open>
  C7, as amended. Take a chat in the course of which no message shown to the reply
  function is classified Termination. Then \<open>run_task\<close> on a newly built agent system
  returns \<open>(False, '''')\<close> when the chat returns, and raises what the chat raises
  otherwise. The deliveries asked of the sink in the run are those of the Content
  messages among what the reply function was shown, one for each, in order, with the
  trimmed text under the label of the agent. So no delivery is asked for exactly when
  nothing the reply function was shown is a Content message: the task counts, when the
  library shows it to the reply function of the manager.
\<close>

theorem run_task_without_termination:
  assumes "\<forall>x\<in>set (intercepted U chat tg (AgentSystem c) (l @ [InitiateChat c task])).
             \<not> is_Termination (class_of U (snd x))"
  shows "fst (run_task U tg (AgentSystem c) task chat l) =
           (case fst (a_initiate_chat U chat tg (AgentSystem c) (l @ [InitiateChat c task])) of
              None \<Rightarrow> Inr (False, [])
            | Some e \<Rightarrow> Inl e)
       \<and> filter is_SendMessage (snd (snd (run_task U tg (AgentSystem c) task chat l)))
           = filter is_SendMessage l
             @ concat (map (content_delivery U c)
                 (intercepted U chat tg (AgentSystem c) (l @ [InitiateChat c task])))
       \<and> (filter is_SendMessage (snd (snd (run_task U tg (AgentSystem c) task chat l)))
            = filter is_SendMessage l)
           = (\<forall>x\<in>set (intercepted U chat tg (AgentSystem c) (l @ [InitiateChat c task])).
                \<forall>p. class_of U (snd x) \<noteq> Some (Content p))"
proof -
  let ?l = "l @ [InitiateChat c task]"
  let ?i = "intercepted U chat tg (AgentSystem c) ?l"
  have c: "sys_chat_id (AgentSystem c) = c" by (simp add: AgentSystem_def)
  have k: "fst (snd (a_initiate_chat U chat tg (AgentSystem c) ?l)) = AgentSystem c"
    and d: "filter is_SendMessage (snd (snd (a_initiate_chat U chat tg (AgentSystem c) ?l)))
       = filter is_SendMessage ?l @ concat (map (content_delivery U c) ?i)"
    using a_initiate_chat_deliveries [OF assms] c by simp_all
  have s: "snd (snd (run_task U tg (AgentSystem c) task chat l))
             = snd (snd (a_initiate_chat U chat tg (AgentSystem c) ?l))"
    by (cases "a_initiate_chat U chat tg (AgentSystem c) ?l")
       (auto simp: run_task_def c split: option.splits)
  have 1: "fst (run_task U tg (AgentSystem c) task chat l) =
           (case fst (a_initiate_chat U chat tg (AgentSystem c) ?l) of
              None \<Rightarrow> Inr (False, [])
            | Some e \<Rightarrow> Inl e)"
    using k
    by (cases "a_initiate_chat U chat tg (AgentSystem c) ?l")
       (auto simp: run_task_def c AgentSystem_def split: option.splits)
  have 2: "filter is_SendMessage (snd (snd (run_task U tg (AgentSystem c) task chat l)))
           = filter is_SendMessage l @ concat (map (content_delivery U c) ?i)"
    unfolding s d by simp
  have e: "(content_delivery U c x = []) = (\<forall>p. class_of U (snd x) \<noteq> Some (Content p))" for x
    by (cases x) (auto split: option.splits classification.splits)
  have 3: "(concat (map (content_delivery U c) ?i) = [])
             = (\<forall>x\<in>set ?i. \<forall>p. class_of U (snd x) \<noteq> Some (Content p))"
    using e by simp
  show ?thesis using 1 2 3 by simp
qed

text \<open>
  The claim as it was stated fails for the task. The reply function is registered with
  the manager too (line 256), and the task is sent to the manager (lines 361-365): in
  \<open>task_then_noise\<close> the reply function of the manager is shown the task, and after that
  every turn is noise. No message is a Termination and \<open>run_task\<close> returns
  \<open>(False, '''')\<close>, but one Content delivery reaches the sink: the task, under the label
  of the manager.
\<close>

theorem run_task_without_termination_counterexample:
  "intercepted ascii_tables task_then_noise (\<lambda>l. None) (AgentSystem 3)
       [InitiateChat 3 (ascii ''what is 2+2'')]
     = [(ascii ''manager'', Str (ascii ''what is 2+2'')),
        (ascii ''analyst'', Str (ascii ''Next speaker: coder'')),
        (ascii ''coder'', Str (ascii ''## routing'')),
        (ascii ''executor'', Str (ascii ''   ''))]
   \<and> classify ascii_tables (ascii ''what is 2+2'') = Content (ascii ''what is 2+2'')
   \<and> classify ascii_tables (ascii ''Next speaker: coder'') = Service
   \<and> classify ascii_tables (ascii ''## routing'') = Service
   \<and> classify ascii_tables (ascii ''   '') = Service
   \<and> run_task ascii_tables (\<lambda>l. None) (AgentSystem 3) (ascii ''what is 2+2'') task_then_noise []
     = (Inr (False, []), AgentSystem 3,
        [InitiateChat 3 (ascii ''what is 2+2''),
         SendMessage 3 (ascii ''what is 2+2'') ([0x1F916] @ ascii '' Manager''),
         BotSendMessage 3 (ascii ''<b>'' @ [0x1F916] @ ascii '' Manager</b>'' @ [10, 10]
                           @ ascii ''what is 2+2'') (Some HTML)])"
  by code_simp

theorem run_task_without_termination_witness:
  "intercepted ascii_tables noise_chat (\<lambda>l. None) (AgentSystem 3)
       ([] @ [InitiateChat 3 (ascii ''task'')])
     = [(ascii ''analyst'', Str (ascii ''Next speaker: coder'')),
        (ascii ''coder'', Str (ascii ''## routing'')),
        (ascii ''executor'', Str (ascii ''   ''))]
   \<and> class_of ascii_tables (Str (ascii ''Next speaker: coder'')) = Some Service
   \<and> class_of ascii_tables (Str (ascii ''## routing'')) = Some Service
   \<and> class_of ascii_tables (Str (ascii ''   '')) = Some Service
   \<and> fst (run_task ascii_tables (\<lambda>l. None) (AgentSystem 3) (ascii ''task'') noise_chat [])
       = Inr (False, [])
   \<and> filter is_SendMessage
       (snd (snd (run_task ascii_tables (\<lambda>l. None) (AgentSystem 3) (ascii ''task'') noise_chat [])))
       = []
   \<and> intercepted ascii_tables task_then_noise (\<lambda>l. None) (AgentSystem 3)
       ([] @ [InitiateChat 3 (ascii ''what is 2+2'')])
     = [(ascii ''manager'', Str (ascii ''what is 2+2'')),
        (ascii ''analyst'', Str (ascii ''Next speaker: coder'')),
        (ascii ''coder'', Str (ascii ''## routing'')),
        (ascii ''executor'', Str (ascii ''   ''))]
   \<and> class_of ascii_tables (Str (ascii ''what is 2+2'')) = Some (Content (ascii ''what is 2+2''))
   \<and> filter is_SendMessage
       (snd (snd (run_task ascii_tables (\<lambda>l. None) (AgentSystem 3) (ascii ''what is 2+2'')
                    task_then_noise [])))
       = [SendMessage 3 (ascii ''what is 2+2'') ([0x1F916] @ ascii '' Manager'')]"
proof -
  let ?U = ascii_tables
  let ?i = "intercepted ?U noise_chat (\<lambda>l. None) (AgentSystem 3)
              ([] @ [InitiateChat 3 (ascii ''task'')])"
  let ?j = "intercepted ?U task_then_noise (\<lambda>l. None) (AgentSystem 3)
              ([] @ [InitiateChat 3 (ascii ''what is 2+2'')])"
  have i: "?i = [(ascii ''analyst'', Str (ascii ''Next speaker: coder'')),
                 (ascii ''coder'', Str (ascii ''## routing'')),
                 (ascii ''executor'', Str (ascii ''   ''))]"
    and j: "?j = [(ascii ''manager'', Str (ascii ''what is 2+2'')),
                  (ascii ''analyst'', Str (ascii ''Next speaker: coder'')),
                  (ascii ''coder'', Str (ascii ''## routing'')),
                  (ascii ''executor'', Str (ascii ''   ''))]"
    by code_simp+
  have s: "class_of ?U (Str (ascii ''Next speaker: coder'')) = Some Service"
    "class_of ?U (Str (ascii ''## routing'')) = Some Service"
    "class_of ?U (Str (ascii ''   '')) = Some Service"
    and t: "class_of ?U (Str (ascii ''what is 2+2'')) = Some (Content (ascii ''what is 2+2''))"
    by code_simp+
  have f: "fst (a_initiate_chat ?U noise_chat (\<lambda>l. None) (AgentSystem 3)
             ([] @ [InitiateChat 3 (ascii ''task'')])) = None"
    and r: "role_display (ascii ''manager'') (ascii ''what is 2+2'') = [0x1F916] @ ascii '' Manager''"
    by code_simp+
  have h1: "\<forall>x\<in>set ?i. \<not> is_Termination (class_of ?U (snd x))"
    unfolding i using s by simp
  have h2: "\<forall>x\<in>set ?j. \<not> is_Termination (class_of ?U (snd x))"
    unfolding j using s t by simp
  have n: "\<forall>x\<in>set ?i. \<forall>p. class_of ?U (snd x) \<noteq> Some (Content p)"
    unfolding i using s by simp
  note noise = run_task_without_termination [OF h1]
  have a: "fst (run_task ?U (\<lambda>l. None) (AgentSystem 3) (ascii ''task'') noise_chat [])
             = Inr (False, [])"
    using noise [THEN conjunct1] f by simp
  have "filter is_SendMessage
       (snd (snd (run_task ?U (\<lambda>l. None) (AgentSystem 3) (ascii ''task'') noise_chat [])))
       = filter is_SendMessage []"
    using noise [THEN conjunct2, THEN conjunct2] n by blast
  then have b: "filter is_SendMessage
       (snd (snd (run_task ?U (\<lambda>l. None) (AgentSystem 3) (ascii ''task'') noise_chat []))) = []"
    by simp
  have "filter is_SendMessage
       (snd (snd (run_task ?U (\<lambda>l. None) (AgentSystem 3) (ascii ''what is 2+2'')
                    task_then_noise [])))
       = filter is_SendMessage [] @ concat (map (content_delivery ?U 3) ?j)"
    using run_task_without_termination [OF h2, THEN conjunct2, THEN conjunct1] .
  then have c: "filter is_SendMessage
       (snd (snd (run_task ?U (\<lambda>l. None) (AgentSystem 3) (ascii ''what is 2+2'')
                    task_then_noise [])))
       = [SendMessage 3 (ascii ''what is 2+2'') ([0x1F916] @ ascii '' Manager'')]"
    unfolding j using s t r by simp
  show ?thesis using i s a b j t c by (intro conjI)
qed

text \<open>
  C8. The deliver operation can raise. \<^verbatim>\<open>send_message\<close> promises a boolean, \<^verbatim>\<open>True\<close> if
  the message was sent and \<^verbatim>\<open>False\<close> otherwise, and around the plain-text attempt it
  catches every \<^verbatim>\<open>Exception\<close> (line 66); but around the first attempt it catches a
  \<^verbatim>\<open>TelegramError\<close> only (line 54). So for every text that is not blank and every
  role: when the client raises on the first attempt an exception that is no
  \<open>TelegramError\<close>, that exception leaves \<^verbatim>\<open>send_message\<close>, after the one attempt with
  the formatted text; no plain text is tried and no boolean is returned.
\<close>

theorem send_message_raises:
  assumes "strip U text \<noteq> []"
    and "tg (l @ [SendMessage chat text role,
                  BotSendMessage chat (format_message U text role) (Some HTML)]) = Some e"
    and "\<not> is_TelegramError e"
  shows "send_message U tg chat text role l =
           (Inl e, l @ [SendMessage chat text role,
                        BotSendMessage chat (format_message U text role) (Some HTML)])"
proof -
  have "text \<noteq> []" using assms(1) by auto
  then show ?thesis
    using assms by (simp add: send_message_def bot_send_message_def Let_def)
qed

text \<open>
  The failing input: the text \<open>hello\<close> for the role \<open>analyst\<close>, over a client whose calls
  raise an exception that is no \<open>TelegramError\<close>.
\<close>

theorem send_message_raises_witness:
  "strip ascii_tables (ascii ''hello'') \<noteq> []
   \<and> \<not> is_TelegramError (OtherException (ascii ''request is shut down''))
   \<and> send_message ascii_tables (\<lambda>l. Some (OtherException (ascii ''request is shut down''))) 1
       (ascii ''hello'') (ascii ''analyst'') []
     = (Inl (OtherException (ascii ''request is shut down'')),
        [SendMessage 1 (ascii ''hello'') (ascii ''analyst''),
         BotSendMessage 1 (ascii ''<b>analyst</b>'' @ [10, 10] @ ascii ''hello'') (Some HTML)])"
proof -
  have h1: "strip ascii_tables (ascii ''hello'') \<noteq> []"
    and f: "format_message ascii_tables (ascii ''hello'') (ascii ''analyst'')
              = ascii ''<b>analyst</b>'' @ [10, 10] @ ascii ''hello''"
    by code_simp+
  have h3: "\<not> is_TelegramError (OtherException (ascii ''request is shut down''))" by simp
  have h2: "(\<lambda>l. Some (OtherException (ascii ''request is shut down'')))
              ([] @ [SendMessage 1 (ascii ''hello'') (ascii ''analyst''),
                     BotSendMessage 1
                       (format_message ascii_tables (ascii ''hello'') (ascii ''analyst''))
                       (Some HTML)])
            = Some (OtherException (ascii ''request is shut down''))"
    by simp
  show ?thesis
    using send_message_raises [OF h1 h2 h3] h1 h3 by (simp add: f)
qed

text \<open>
  C9. Clearing the session of a chat and then asking for it gives a new session object:
  it lies at an address that no chat was mapped to before, its busy flag is false, it
  has no context, and none of its fields comes from the session cleared: it is the
  session \<^verbatim>\<open>Session.__init__\<close> builds. A session holds no conversation: the agent
  system of a task is built in \<^verbatim>\<open>Session.run_task\<close> and kept nowhere. No other object of
  the store is touched.
\<close>

theorem clear_then_get_session:
  assumes "registry_ok w"
  shows "case get_session chat (clear_session chat w) of
           (a, w') \<Rightarrow>
             sessions w' chat = Some a
             \<and> heap w' a = Session chat
             \<and> \<not> is_busy (heap w' a) \<and> bot (heap w' a) = None \<and> loop (heap w' a) = None
             \<and> a = next_addr w
             \<and> (\<forall>c. sessions w c \<noteq> Some a)
             \<and> (\<forall>b. b \<noteq> a \<longrightarrow> heap w' b = heap w b)"
proof -
  have "\<forall>c. sessions w c \<noteq> Some (next_addr w)"
    using assms by (auto simp: registry_ok_def)
  then show ?thesis
    by (auto simp: get_session_def clear_session_def Session_def split: option.splits)
qed

theorem clear_then_get_session_witness:
  "registry_ok busy_world
   \<and> sessions busy_world 7 = Some 0 \<and> is_busy (heap busy_world 0)
   \<and> fst (get_session 7 (clear_session 7 busy_world)) = 1
   \<and> sessions (snd (get_session 7 (clear_session 7 busy_world))) 7 = Some 1
   \<and> heap (snd (get_session 7 (clear_session 7 busy_world))) 1
       = \<lparr>chat_id = 7, is_busy = False, bot = None, loop = None\<rparr>"
proof -
  have n: "next_addr busy_world = 1" and s: "sessions busy_world 7 = Some 0"
    and b: "is_busy (heap busy_world 0)"
    by (simp_all add: busy_world_def)
  show ?thesis
    using clear_then_get_session [OF registry_ok_busy_world, of 7] registry_ok_busy_world n s b
    by (auto simp: Session_def split: prod.splits)
qed

text \<open>
  C10. A session may be cleared while it is busy. Let a task for a chat be running: the
  registry maps the chat to the session at \<open>a\<close>, whose busy flag is set and which the
  running handler holds. \<open>clear_session\<close> removes the entry without looking at the flag
  and touches no session. \<open>get_session\<close> then builds a new session, at another address,
  with the busy flag false, while the session at \<open>a\<close> is still busy. So a second task for
  the chat is accepted: over a transport that fails with a \<open>TelegramError\<close> only it is
  handed to the agents, and it leaves the flag at \<open>a\<close> set. The \<^verbatim>\<open>finally\<close> clause of the
  first handler, the assignment \<open>set_is_busy a False\<close>, then clears the flag of the
  session at \<open>a\<close>, which the registry no longer knows, and changes nothing else.
\<close>

theorem clear_while_busy:
  assumes ok: "registry_ok w" and s: "sessions w chat = Some a" and b: "is_busy (heap w a)"
    and tg: "telegram_only tg" and t: "strip U t \<noteq> []"
  shows "sessions (clear_session chat w) chat = None
       \<and> heap (clear_session chat w) = heap w
       \<and> (case get_session chat (clear_session chat w) of
            (a2, w2) \<Rightarrow>
              a2 \<noteq> a \<and> sessions w2 chat = Some a2 \<and> heap w2 a2 = Session chat
              \<and> is_busy (heap w2 a)
              \<and> sessions (set_is_busy a False w2) = sessions w2
              \<and> \<not> is_busy (heap (set_is_busy a False w2) a)
              \<and> (\<forall>b. b \<noteq> a \<longrightarrow> heap (set_is_busy a False w2) b = heap w2 b))
       \<and> (case handle_message U tg chat (Some t) conv (\<lambda>w. w) (clear_session chat w) of
            (r, w3) \<Rightarrow>
              r = Inr () \<and> InitiateChat chat (strip U t) \<in> set (events w3)
              \<and> is_busy (heap w3 a))"
proof -
  let ?w1 = "clear_session chat w"
  let ?a2 = "next_addr w"
  let ?w2 = "?w1\<lparr>sessions := (sessions ?w1)(chat \<mapsto> ?a2),
                 heap := (heap ?w1)(?a2 := Session chat),
                 next_addr := Suc ?a2\<rparr>"
  have c: "sessions ?w1 chat = None" "heap ?w1 = heap w" "next_addr ?w1 = next_addr w"
    "events ?w1 = events w"
    by (auto simp: clear_session_def)
  have g: "get_session chat ?w1 = (?a2, ?w2)"
    using c by (simp add: get_session_def)
  have lt: "a < ?a2" using ok s by (auto simp: registry_ok_def)
  then have ne: "?a2 \<noteq> a" by simp
  have first: "sessions ?w1 chat = None \<and> heap ?w1 = heap w" using c by simp
  have second: "case get_session chat ?w1 of
            (a2, w2) \<Rightarrow>
              a2 \<noteq> a \<and> sessions w2 chat = Some a2 \<and> heap w2 a2 = Session chat
              \<and> is_busy (heap w2 a)
              \<and> sessions (set_is_busy a False w2) = sessions w2
              \<and> \<not> is_busy (heap (set_is_busy a False w2) a)
              \<and> (\<forall>b. b \<noteq> a \<longrightarrow> heap (set_is_busy a False w2) b = heap w2 b)"
    using g ne b c by (simp add: set_is_busy_def)
  have nb: "\<not> is_busy (heap ?w2 ?a2)" and ci: "chat_id (heap ?w2 ?a2) = chat"
    by (simp_all add: Session_def)
  obtain L E where i: "InitiateChat (chat_id (heap ?w2 ?a2)) (strip U t) \<in> set L"
    and h: "handle_message U tg chat (Some t) conv (\<lambda>w. w) ?w1 =
       (Inr (),
        set_is_busy ?a2 False
          (((set_context ?a2 Bot EventLoop (set_is_busy ?a2 True ?w2))
                \<lparr>events := events ?w1 @ L\<rparr>)
             \<lparr>events := events
                ((set_context ?a2 Bot EventLoop (set_is_busy ?a2 True ?w2))
                   \<lparr>events := events ?w1 @ L\<rparr>) @ E\<rparr>))"
    using handle_message_accepted [OF tg t g nb, of conv "\<lambda>w. w"] by blast
  have third: "case handle_message U tg chat (Some t) conv (\<lambda>w. w) ?w1 of
            (r, w3) \<Rightarrow>
              r = Inr () \<and> InitiateChat chat (strip U t) \<in> set (events w3)
              \<and> is_busy (heap w3 a)"
    using i ci ne b c unfolding h by (simp add: set_is_busy_def set_context_def)
  show ?thesis using first second third by blast
qed

theorem clear_while_busy_witness:
  "registry_ok busy_world \<and> sessions busy_world 7 = Some 0 \<and> is_busy (heap busy_world 0)
   \<and> telegram_only (\<lambda>l. None) \<and> strip ascii_tables (ascii ''second task'') \<noteq> []
   \<and> sessions (clear_session 7 busy_world) 7 = None
   \<and> fst (get_session 7 (clear_session 7 busy_world)) = 1
   \<and> is_busy (heap (snd (get_session 7 (clear_session 7 busy_world))) 0)
   \<and> \<not> is_busy (heap (snd (get_session 7 (clear_session 7 busy_world))) 1)
   \<and> InitiateChat 7 (ascii ''second task'')
       \<in> set (events (snd (handle_message ascii_tables (\<lambda>l. None) 7
                             (Some (ascii ''second task'')) answer_chat (\<lambda>w. w)
                             (clear_session 7 busy_world))))
   \<and> filter (\<lambda>e. \<not> is_delivery e)
       (events (snd (handle_message ascii_tables (\<lambda>l. None) 7
          (Some (ascii ''what is 2+2'')) answer_chat
          (\<lambda>w. snd (handle_message ascii_tables (\<lambda>l. None) 7
                      (Some (ascii ''second task'')) noise_chat (\<lambda>w. w)
                      (snd (reset (\<lambda>l. None) 7 w))))
          SessionManager)))
       = [InitiateChat 7 (ascii ''what is 2+2''), ReplyText 7 memory_cleared_text (Some HTML),
          InitiateChat 7 (ascii ''second task'')]
   \<and> sessions (snd (handle_message ascii_tables (\<lambda>l. None) 7
          (Some (ascii ''what is 2+2'')) answer_chat
          (\<lambda>w. snd (handle_message ascii_tables (\<lambda>l. None) 7
                      (Some (ascii ''second task'')) noise_chat (\<lambda>w. w)
                      (snd (reset (\<lambda>l. None) 7 w))))
          SessionManager)) 7 = Some 1"
proof -
  have s: "sessions busy_world 7 = Some 0" and b: "is_busy (heap busy_world 0)"
    and n: "next_addr busy_world = 1"
    by (simp_all add: busy_world_def)
  have t: "strip ascii_tables (ascii ''second task'') \<noteq> []"
    and ts: "strip ascii_tables (ascii ''second task'') = ascii ''second task''"
    by code_simp+
  have g: "fst (get_session 7 (clear_session 7 busy_world)) = 1"
    using s n by (auto simp: get_session_def clear_session_def)
  have run: "filter (\<lambda>e. \<not> is_delivery e)
       (events (snd (handle_message ascii_tables (\<lambda>l. None) 7
          (Some (ascii ''what is 2+2'')) answer_chat
          (\<lambda>w. snd (handle_message ascii_tables (\<lambda>l. None) 7
                      (Some (ascii ''second task'')) noise_chat (\<lambda>w. w)
                      (snd (reset (\<lambda>l. None) 7 w))))
          SessionManager)))
       = [InitiateChat 7 (ascii ''what is 2+2''), ReplyText 7 memory_cleared_text (Some HTML),
          InitiateChat 7 (ascii ''second task'')]"
    and reg: "sessions (snd (handle_message ascii_tables (\<lambda>l. None) 7
          (Some (ascii ''what is 2+2'')) answer_chat
          (\<lambda>w. snd (handle_message ascii_tables (\<lambda>l. None) 7
                      (Some (ascii ''second task'')) noise_chat (\<lambda>w. w)
                      (snd (reset (\<lambda>l. None) 7 w))))
          SessionManager)) 7 = Some 1"
    by code_simp+
  note c = clear_while_busy [OF registry_ok_busy_world s b telegram_only_None t, of answer_chat]
  from c g have 1: "sessions (clear_session 7 busy_world) 7 = None"
    and 2: "is_busy (heap (snd (get_session 7 (clear_session 7 busy_world))) 0)"
    and 3: "\<not> is_busy (heap (snd (get_session 7 (clear_session 7 busy_world))) 1)"
    and 4: "InitiateChat 7 (ascii ''second task'')
       \<in> set (events (snd (handle_message ascii_tables (\<lambda>l. None) 7
                             (Some (ascii ''second task'')) answer_chat (\<lambda>w. w)
                             (clear_session 7 busy_world))))"
    by (auto simp: ts Session_def split: prod.splits)
  show ?thesis
    using registry_ok_busy_world s b telegram_only_None t g 1 2 3 4 run reg
    by (intro conjI)
qed

end
